theory Spec2Isabelle
  imports Main
begin

section \<open>QueryBuilder: assembling a parameterised SQL statement\<close>

text \<open>
  The builder is a mutable JavaScript object; every method mutates it and returns it.
  The model passes the object explicitly. Parameter values are the non-null JavaScript
  values the callers supply; \<open>null\<close> (and \<open>undefined\<close>, which the default argument
  of \<open>where\<close> turns into \<open>null\<close>) is \<open>None\<close>.
\<close>

datatype js_value = JStr string | JNum int | JBool bool

record join_clause =
  j_table :: string
  j_condition :: string
  j_type :: string

record where_condition =
  w_condition :: string
  w_value :: "js_value option"

record order_clause =
  o_field :: string
  o_direction :: string

record query_builder =
  selectFields :: "string list option"
  fromTable :: string
  joins :: "join_clause list"
  whereConditions :: "where_condition list"
  groupByFields :: "string list"
  orderByClauses :: "order_clause list"
  limitValue :: "js_value option"
  offsetValue :: "js_value option"
  params :: "js_value list"
  paramIndex :: nat

text \<open>An argument that may be one string or an array of strings
  (\<open>Array.isArray(fields) ? fields : [fields]\<close>).\<close>

datatype fields_arg = Field string | Fields "string list"

fun as_array :: "fields_arg \<Rightarrow> string list" where
  "as_array (Fields fs) = fs"
| "as_array (Field f) = [f]"

definition new_builder :: query_builder where
  "new_builder = \<lparr> selectFields = None, fromTable = '''', joins = [], whereConditions = [],
     groupByFields = [], orderByClauses = [], limitValue = None, offsetValue = None,
     params = [], paramIndex = 1 \<rparr>"

text \<open>Decimal rendering of a number inside a template literal.\<close>

definition digit_char :: "nat \<Rightarrow> char" where
  "digit_char d = ''0123456789'' ! d"

function string_of_nat :: "nat \<Rightarrow> string" where
  "string_of_nat n =
     (if n < 10 then [digit_char n] else string_of_nat (n div 10) @ [digit_char (n mod 10)])"
  by pat_completeness auto
termination
  by (relation "measure (\<lambda>n. n)") auto

declare string_of_nat.simps [simp del]

text \<open>\<open>Array.prototype.join\<close> on an array of strings.\<close>

fun js_join :: "string \<Rightarrow> string list \<Rightarrow> string" where
  "js_join sep [] = []"
| "js_join sep [x] = x"
| "js_join sep (x # y # ys) = x @ sep @ js_join sep (y # ys)"

text \<open>
  \<open>String.prototype.replace\<close> with the one-character string pattern \<open>?\<close>: only the first
  occurrence is replaced. The replacement text is a dollar sign and decimal digits; with
  a string pattern there are no capture groups, so it is inserted as it is.
\<close>

fun replace_first :: "char \<Rightarrow> string \<Rightarrow> string \<Rightarrow> string" where
  "replace_first p r [] = []"
| "replace_first p r (c # cs) = (if c = p then r @ cs else c # replace_first p r cs)"

definition marker :: "nat \<Rightarrow> string" where
  "marker i = ''$'' @ string_of_nat i"

definition qb_select :: "fields_arg \<Rightarrow> query_builder \<Rightarrow> query_builder" where
  "qb_select fs b = b\<lparr> selectFields := Some (as_array fs) \<rparr>"

definition qb_from :: "string \<Rightarrow> query_builder \<Rightarrow> query_builder" where
  "qb_from t b = b\<lparr> fromTable := t \<rparr>"

text \<open>The join kind defaults to \<open>LEFT\<close> when the third argument is left out.\<close>

definition qb_join :: "string \<Rightarrow> string \<Rightarrow> string option \<Rightarrow> query_builder \<Rightarrow> query_builder" where
  "qb_join t c ty b =
     b\<lparr> joins := joins b @
        [\<lparr> j_table = t, j_condition = c,
           j_type = (case ty of None \<Rightarrow> ''LEFT'' | Some k \<Rightarrow> k) \<rparr>] \<rparr>"

definition qb_where :: "string \<Rightarrow> js_value option \<Rightarrow> query_builder \<Rightarrow> query_builder" where
  "qb_where cond v b =
     (case v of
        Some x \<Rightarrow>
          b\<lparr> whereConditions := whereConditions b @
               [\<lparr> w_condition = replace_first (CHR ''?'') (marker (paramIndex b)) cond,
                  w_value = Some x \<rparr>],
             params := params b @ [x],
             paramIndex := paramIndex b + 1 \<rparr>
      | None \<Rightarrow>
          b\<lparr> whereConditions := whereConditions b @
               [\<lparr> w_condition = cond, w_value = None \<rparr>] \<rparr>)"

definition qb_groupBy :: "fields_arg \<Rightarrow> query_builder \<Rightarrow> query_builder" where
  "qb_groupBy fs b = b\<lparr> groupByFields := as_array fs \<rparr>"

text \<open>The direction defaults to \<open>ASC\<close>.\<close>

definition qb_orderBy :: "string \<Rightarrow> string option \<Rightarrow> query_builder \<Rightarrow> query_builder" where
  "qb_orderBy f d b =
     b\<lparr> orderByClauses := orderByClauses b @
        [\<lparr> o_field = f, o_direction = (case d of None \<Rightarrow> ''ASC'' | Some k \<Rightarrow> k) \<rparr>] \<rparr>"

definition qb_limit :: "js_value option \<Rightarrow> query_builder \<Rightarrow> query_builder" where
  "qb_limit v b = b\<lparr> limitValue := v \<rparr>"

definition qb_offset :: "js_value option \<Rightarrow> query_builder \<Rightarrow> query_builder" where
  "qb_offset v b = b\<lparr> offsetValue := v \<rparr>"

datatype qb_error = MissingClause string

record build_result =
  query :: string
  r_params :: "js_value list"

text \<open>The clauses of \<open>build\<close>, in the order in which the source appends them.\<close>

definition joins_text :: "join_clause list \<Rightarrow> string" where
  "joins_text js =
     foldl (\<lambda>q j. q @ '' '' @ j_type j @ '' JOIN '' @ j_table j @ '' ON '' @ j_condition j) [] js"

definition where_text :: "where_condition list \<Rightarrow> string" where
  "where_text ws =
     (if length ws > 0 then '' WHERE '' @ js_join '' AND '' (map w_condition ws) else [])"

definition group_text :: "string list \<Rightarrow> string" where
  "group_text gs = (if length gs > 0 then '' GROUP BY '' @ js_join '', '' gs else [])"

definition order_text :: "order_clause list \<Rightarrow> string" where
  "order_text os =
     (if length os > 0
      then '' ORDER BY '' @ js_join '', '' (map (\<lambda>c. o_field c @ '' '' @ o_direction c) os)
      else [])"

definition base_text :: "string list \<Rightarrow> query_builder \<Rightarrow> string" where
  "base_text fs b =
     ''SELECT '' @ js_join '', '' fs @ '' FROM '' @ fromTable b
       @ joins_text (joins b)
       @ where_text (whereConditions b)
       @ group_text (groupByFields b)
       @ order_text (orderByClauses b)"

text \<open>
  \<open>build\<close> throws when no SELECT was given. Otherwise it returns the statement and the
  parameter array; it pushes the limit and the offset onto the builder's own parameter
  array and advances its index after the limit, so the builder it leaves behind is part
  of the result.
\<close>

definition build :: "query_builder \<Rightarrow> qb_error + (build_result \<times> query_builder)" where
  "build b =
     (case selectFields b of
        None \<Rightarrow> Inl (MissingClause ''SELECT clause is required'')
      | Some fs \<Rightarrow>
          let q4 = base_text fs b;
              (q5, b5) =
                (case limitValue b of
                   Some l \<Rightarrow>
                     (q4 @ '' LIMIT '' @ marker (paramIndex b),
                      b\<lparr> params := params b @ [l], paramIndex := paramIndex b + 1 \<rparr>)
                 | None \<Rightarrow> (q4, b));
              (q6, b6) =
                (case offsetValue b5 of
                   Some off \<Rightarrow>
                     (q5 @ '' OFFSET '' @ marker (paramIndex b5),
                      b5\<lparr> params := params b5 @ [off] \<rparr>)
                 | None \<Rightarrow> (q5, b5))
          in Inr (\<lparr> query = q6, r_params = params b6 \<rparr>, b6))"

text \<open>A call sequence on a builder, as the fluent interface allows it.\<close>

datatype qb_call =
    Select fields_arg
  | From string
  | Join string string "string option"
  | Where string "js_value option"
  | GroupBy fields_arg
  | OrderBy string "string option"
  | Limit "js_value option"
  | Offset "js_value option"

fun apply_call :: "query_builder \<Rightarrow> qb_call \<Rightarrow> query_builder" where
  "apply_call b (Select fs) = qb_select fs b"
| "apply_call b (From t) = qb_from t b"
| "apply_call b (Join t c ty) = qb_join t c ty b"
| "apply_call b (Where c v) = qb_where c v b"
| "apply_call b (GroupBy fs) = qb_groupBy fs b"
| "apply_call b (OrderBy f d) = qb_orderBy f d b"
| "apply_call b (Limit v) = qb_limit v b"
| "apply_call b (Offset v) = qb_offset v b"

definition run_calls :: "qb_call list \<Rightarrow> query_builder" where
  "run_calls cs = foldl apply_call new_builder cs"

definition build_calls :: "qb_call list \<Rightarrow> qb_error + build_result" where
  "build_calls cs = map_sum id fst (build (run_calls cs))"

text \<open>
  The reading of the contract that the statements below are compared with: the values of
  the \<open>where\<close> calls in call order, the conditions with their markers numbered from
  a given index, and the value of the last \<open>limit\<close> and \<open>offset\<close> call.
\<close>

fun is_select :: "qb_call \<Rightarrow> bool" where
  "is_select (Select fs) = True"
| "is_select _ = False"

fun where_values :: "qb_call list \<Rightarrow> js_value list" where
  "where_values [] = []"
| "where_values (c # cs) =
     (case c of Where t (Some v) \<Rightarrow> [v] | _ \<Rightarrow> []) @ where_values cs"

fun numbered_wheres :: "nat \<Rightarrow> qb_call list \<Rightarrow> string list" where
  "numbered_wheres i [] = []"
| "numbered_wheres i (c # cs) =
     (case c of
        Where t (Some v) \<Rightarrow>
          replace_first (CHR ''?'') (marker i) t # numbered_wheres (i + 1) cs
      | Where t None \<Rightarrow> t # numbered_wheres i cs
      | _ \<Rightarrow> numbered_wheres i cs)"

fun last_limit :: "js_value option \<Rightarrow> qb_call list \<Rightarrow> js_value option" where
  "last_limit l [] = l"
| "last_limit l (c # cs) = last_limit (case c of Limit v \<Rightarrow> v | _ \<Rightarrow> l) cs"

fun last_offset :: "js_value option \<Rightarrow> qb_call list \<Rightarrow> js_value option" where
  "last_offset l [] = l"
| "last_offset l (c # cs) = last_offset (case c of Offset v \<Rightarrow> v | _ \<Rightarrow> l) cs"

fun opt_list :: "'a option \<Rightarrow> 'a list" where
  "opt_list None = []"
| "opt_list (Some x) = [x]"

definition limit_clause :: "qb_call list \<Rightarrow> string" where
  "limit_clause cs =
     (case last_limit None cs of
        None \<Rightarrow> []
      | Some l \<Rightarrow> '' LIMIT '' @ marker (length (where_values cs) + 1))"

definition offset_clause :: "qb_call list \<Rightarrow> string" where
  "offset_clause cs =
     (case last_offset None cs of
        None \<Rightarrow> []
      | Some off \<Rightarrow>
          '' OFFSET '' @
          marker (length (where_values cs) + length (opt_list (last_limit None cs)) + 1))"

text \<open>How often a keyword occurs in a statement.\<close>

definition count_sub :: "string \<Rightarrow> string \<Rightarrow> nat" where
  "count_sub pat s =
     length (filter (\<lambda>i. take (length pat) (drop i s) = pat) [0..<length s])"

definition example_calls :: "qb_call list" where
  "example_calls =
     [Select (Fields [''id'']), From ''jobs'', Where ''state = ?'' (Some (JStr ''done'')),
      Limit (Some (JNum 10)), Offset (Some (JNum 5))]"

section \<open>Validator: pagination\<close>

text \<open>
  The arguments of \<open>validatePagination\<close> are query-string values (strings, or
  \<open>undefined\<close> when the parameter is absent) or, in the tests, numbers. A string is the
  list of the bytes of its UTF-8 encoding. \<open>Num n\<close> stands for an integral number below
  \<open>10^21\<close> in magnitude, which \<open>ToString\<close> renders as its decimal numeral.

  \<open>parseInt\<close> converts its argument to a string, skips leading white space (the ASCII
  control and space characters and the Unicode spaces, the line and paragraph
  separators and the byte order mark), reads a sign, switches to radix 16 after a
  \<open>0x\<close> prefix, and reads the longest prefix of digits; without a digit the result is
  \<open>NaN\<close>. The integer read becomes a Number: a double, exact below \<open>2^53\<close>, rounded to
  53 significant bits (ties to even) above, and infinite from \<open>2^1024\<close> on. The
  rounding is the exact one, which the runtime of the repository computes; the language
  standard also allows a runtime to ignore decimal digits after the 20th.
\<close>

datatype js_input = Undefined | Num int | Str string

datatype js_number = NaN | Finite int | PosInfinity | NegInfinity

definition js_to_string :: "js_input \<Rightarrow> string" where
  "js_to_string x =
     (case x of
        Undefined \<Rightarrow> ''undefined''
      | Num n \<Rightarrow> (if n < 0 then ''-'' @ string_of_nat (nat (- n)) else string_of_nat (nat n))
      | Str s \<Rightarrow> s)"

text \<open>
  The number of bytes of the white space character at the head of a byte sequence, 0 when
  there is none: U+0009 to U+000D and U+0020 (one byte), U+00A0 (C2 A0), U+1680
  (E1 9A 80), U+2000 to U+200A, U+2028, U+2029 and U+202F (E2 80 ..), U+205F (E2 81 9F),
  U+3000 (E3 80 80) and U+FEFF (EF BB BF).
\<close>

fun space_width :: "nat list \<Rightarrow> nat" where
  "space_width [] = 0"
| "space_width (b # bs) =
     (if b = 9 \<or> b = 10 \<or> b = 11 \<or> b = 12 \<or> b = 13 \<or> b = 32 then 1
      else if b = 194 \<and> take 1 bs = [160] then 2
      else if b = 225 \<and> take 2 bs = [154, 128] then 3
      else if b = 226 \<and> take 1 bs = [128] \<and>
              (case drop 1 bs of
                 [] \<Rightarrow> False
               | d # ds \<Rightarrow> (128 \<le> d \<and> d \<le> 138) \<or> d = 168 \<or> d = 169 \<or> d = 175) then 3
      else if b = 226 \<and> take 2 bs = [129, 159] then 3
      else if b = 227 \<and> take 2 bs = [128, 128] then 3
      else if b = 239 \<and> take 2 bs = [187, 191] then 3
      else 0)"

function skip_js_space :: "string \<Rightarrow> string" where
  "skip_js_space s =
     (if space_width (map of_char s) = 0 then s
      else skip_js_space (drop (space_width (map of_char s)) s))"
  by pat_completeness auto
termination
proof (relation "measure length")
  show "wf (measure length)"
    by simp
next
  fix s :: string
  assume w: "space_width (map of_char s) \<noteq> 0"
  then have "s \<noteq> []"
    by (cases s) auto
  with w show "(drop (space_width (map of_char s)) s, s) \<in> measure length"
    by simp
qed

declare skip_js_space.simps [simp del]

definition digit_of :: "char \<Rightarrow> nat" where
  "digit_of c =
     (let n = (of_char c :: nat) in
      if 48 \<le> n \<and> n \<le> 57 then n - 48
      else if 97 \<le> n \<and> n \<le> 122 then n - 87
      else if 65 \<le> n \<and> n \<le> 90 then n - 55
      else 36)"

definition digits_value :: "nat \<Rightarrow> string \<Rightarrow> int" where
  "digits_value r ds = foldl (\<lambda>acc c. acc * int r + int (digit_of c)) 0 ds"

definition parse_digits :: "nat \<Rightarrow> string \<Rightarrow> int option" where
  "parse_digits r s =
     (let z = takeWhile (\<lambda>c. digit_of c < r) s
      in if z = [] then None else Some (digits_value r z))"

definition parse_unsigned :: "string \<Rightarrow> int option" where
  "parse_unsigned s =
     (if take 2 s = ''0x'' \<or> take 2 s = ''0X'' then parse_digits 16 (drop 2 s)
      else parse_digits 10 s)"

text \<open>The Number value of an integer.\<close>

function bit_length :: "int \<Rightarrow> nat" where
  "bit_length m = (if m \<le> 0 then 0 else Suc (bit_length (m div 2)))"
  by pat_completeness auto
termination
  by (relation "measure nat") auto

declare bit_length.simps [simp del]

definition round_to_double :: "int \<Rightarrow> int" where
  "round_to_double m =
     (let k = bit_length m - 53;
          q = m div 2 ^ k;
          r = m mod 2 ^ k;
          h = 2 ^ (k - 1)
      in (if r > h \<or> (r = h \<and> odd q) then q + 1 else q) * 2 ^ k)"

definition to_number :: "int \<Rightarrow> js_number" where
  "to_number x =
     (if \<bar>x\<bar> < 9007199254740992 then Finite x
      else if round_to_double \<bar>x\<bar> \<ge> 2 ^ 1024
        then (if x < 0 then NegInfinity else PosInfinity)
      else Finite (if x < 0 then - round_to_double \<bar>x\<bar> else round_to_double \<bar>x\<bar>))"

definition parseInt :: "js_input \<Rightarrow> js_number" where
  "parseInt x =
     (let s = skip_js_space (js_to_string x) in
      case s of
        [] \<Rightarrow> NaN
      | c # cs \<Rightarrow>
          (case (if c = CHR ''-'' then map_option uminus (parse_unsigned cs)
                 else if c = CHR ''+'' then parse_unsigned cs
                 else parse_unsigned s) of
             None \<Rightarrow> NaN
           | Some n \<Rightarrow> to_number n))"

text \<open>\<open>parseInt(x) || d\<close>: \<open>NaN\<close> and \<open>0\<close> are falsy, every other number is truthy.\<close>

definition or_default :: "js_number \<Rightarrow> int \<Rightarrow> js_number" where
  "or_default v d =
     (case v of
        NaN \<Rightarrow> Finite d
      | Finite n \<Rightarrow> if n = 0 then Finite d else Finite n
      | PosInfinity \<Rightarrow> PosInfinity
      | NegInfinity \<Rightarrow> NegInfinity)"

text \<open>The comparisons of a Number with an integer constant.\<close>

fun greater_than :: "js_number \<Rightarrow> int \<Rightarrow> bool" where
  "greater_than NaN k = False"
| "greater_than (Finite n) k = (n > k)"
| "greater_than PosInfinity k = True"
| "greater_than NegInfinity k = False"

fun less_than :: "js_number \<Rightarrow> int \<Rightarrow> bool" where
  "less_than NaN k = False"
| "less_than (Finite n) k = (n < k)"
| "less_than PosInfinity k = False"
| "less_than NegInfinity k = True"

datatype error =
    InvalidPagination string
  | NotFound string
  | StoreError string
  | TypeError string

fun message_of :: "error \<Rightarrow> string" where
  "message_of (InvalidPagination m) = m"
| "message_of (NotFound m) = m"
| "message_of (StoreError m) = m"
| "message_of (TypeError m) = m"

record pagination =
  p_limit :: js_number
  p_offset :: js_number

definition validatePagination :: "js_input \<Rightarrow> js_input \<Rightarrow> error + pagination" where
  "validatePagination limit offset =
     (let parsedLimit = or_default (parseInt limit) 50;
          parsedOffset = or_default (parseInt offset) 0
      in if greater_than parsedLimit 100
           then Inl (InvalidPagination ''Limit cannot exceed 100'')
         else if less_than parsedLimit 1
           then Inl (InvalidPagination ''Limit must be at least 1'')
         else if less_than parsedOffset 0
           then Inl (InvalidPagination ''Offset must be non-negative'')
         else Inr \<lparr> p_limit = parsedLimit, p_offset = parsedOffset \<rparr>)"

section \<open>The store behind the connection pool\<close>

text \<open>
  The store is a PostgreSQL database, reached through the pool of the \<open>pg\<close> driver:
  \<open>query\<close> calls on the pool, or on a client taken from it. The driver and the server
  are not part of the repository; the model below is their behaviour as far as the
  service depends on it. A statement either succeeds with its effect or throws and
  changes nothing. \<open>BEGIN\<close> opens a working copy of the committed data, \<open>COMMIT\<close>
  installs it, \<open>ROLLBACK\<close> drops it; other readers see the committed data only. A
  statement that fails inside an open transaction puts the transaction into the failed
  state: from then on every statement other than \<open>COMMIT\<close> and \<open>ROLLBACK\<close> fails as
  well (the transaction is aborted, commands are ignored until its end), and \<open>COMMIT\<close>
  rolls the transaction back instead of installing it. The table of dependency edges is
  optional: where it is missing, every statement on it fails. Which statements fail for
  other reasons (connectivity, constraints) is a parameter of every operation.
\<close>

record job =
  j_id :: string
  j_state :: string
  j_error :: "string option"
  j_user_id :: string
  j_reported :: bool

record task =
  t_job_id :: string
  t_task_id :: string
  t_state :: string

record task_dep =
  d_job_id :: string
  d_pre_task_id :: string
  d_post_task_id :: string

record store =
  jobs :: "job list"
  tasks :: "task list"
  task_deps :: "task_dep list option"

datatype stmt =
    Connect
  | Begin
  | Commit
  | Rollback
  | SelectJobById string
  | SelectDepsByJob string
  | DeleteDepsByJob string
  | DeleteTasksByJob string
  | DeleteJobById string
  | CountJobsByState string
  | SelectJobIdsByState string
  | DeleteDepsByJobState string
  | DeleteTasksByJobState string
  | DeleteJobsByState string

datatype row = IdRow string | DepRow string string | CountRow nat

type_synonym faults = "stmt \<Rightarrow> bool"

definition no_faults :: faults where
  "no_faults s = False"

definition missing_deps :: error where
  "missing_deps = StoreError ''relation task_deps does not exist''"

definition job_ids_in_state :: "string \<Rightarrow> store \<Rightarrow> string list" where
  "job_ids_in_state st d = map j_id (filter (\<lambda>j. j_state j = st) (jobs d))"

text \<open>The data statements, each with the SQL text it stands for.\<close>

fun run_stmt :: "stmt \<Rightarrow> store \<Rightarrow> error + (row list \<times> store)" where
  \<comment> \<open>\<open>SELECT id FROM jobs WHERE id = $1\<close>\<close>
  "run_stmt (SelectJobById i) d =
     Inr (map (\<lambda>j. IdRow (j_id j)) (filter (\<lambda>j. j_id j = i) (jobs d)), d)"
  \<comment> \<open>\<open>SELECT pre_task_id, post_task_id FROM task_deps WHERE job_id = $1\<close>\<close>
| "run_stmt (SelectDepsByJob i) d =
     (case task_deps d of
        None \<Rightarrow> Inl missing_deps
      | Some ds \<Rightarrow>
          Inr (map (\<lambda>e. DepRow (d_pre_task_id e) (d_post_task_id e))
                 (filter (\<lambda>e. d_job_id e = i) ds), d))"
  \<comment> \<open>\<open>DELETE FROM task_deps WHERE job_id = $1\<close>\<close>
| "run_stmt (DeleteDepsByJob i) d =
     (case task_deps d of
        None \<Rightarrow> Inl missing_deps
      | Some ds \<Rightarrow> Inr ([], d\<lparr> task_deps := Some (filter (\<lambda>e. d_job_id e \<noteq> i) ds) \<rparr>))"
  \<comment> \<open>\<open>DELETE FROM tasks WHERE job_id = $1\<close>\<close>
| "run_stmt (DeleteTasksByJob i) d =
     Inr ([], d\<lparr> tasks := filter (\<lambda>t. t_job_id t \<noteq> i) (tasks d) \<rparr>)"
  \<comment> \<open>\<open>DELETE FROM jobs WHERE id = $1 RETURNING id\<close>\<close>
| "run_stmt (DeleteJobById i) d =
     Inr (map (\<lambda>j. IdRow (j_id j)) (filter (\<lambda>j. j_id j = i) (jobs d)),
          d\<lparr> jobs := filter (\<lambda>j. j_id j \<noteq> i) (jobs d) \<rparr>)"
  \<comment> \<open>\<open>SELECT COUNT(*) as count FROM jobs WHERE state = $1\<close>\<close>
| "run_stmt (CountJobsByState st) d = Inr ([CountRow (length (job_ids_in_state st d))], d)"
  \<comment> \<open>\<open>SELECT id FROM jobs WHERE state = $1\<close>\<close>
| "run_stmt (SelectJobIdsByState st) d = Inr (map IdRow (job_ids_in_state st d), d)"
  \<comment> \<open>\<open>DELETE FROM task_deps WHERE job_id IN (SELECT id FROM jobs WHERE state = $1)\<close>\<close>
| "run_stmt (DeleteDepsByJobState st) d =
     (case task_deps d of
        None \<Rightarrow> Inl missing_deps
      | Some ds \<Rightarrow>
          Inr ([], d\<lparr> task_deps :=
                   Some (filter (\<lambda>e. d_job_id e \<notin> set (job_ids_in_state st d)) ds) \<rparr>))"
  \<comment> \<open>\<open>DELETE FROM tasks WHERE job_id IN (SELECT id FROM jobs WHERE state = $1)\<close>\<close>
| "run_stmt (DeleteTasksByJobState st) d =
     Inr ([], d\<lparr> tasks :=
              filter (\<lambda>t. t_job_id t \<notin> set (job_ids_in_state st d)) (tasks d) \<rparr>)"
  \<comment> \<open>\<open>DELETE FROM jobs WHERE state = $1\<close>\<close>
| "run_stmt (DeleteJobsByState st) d =
     Inr ([], d\<lparr> jobs := filter (\<lambda>j. j_state j \<noteq> st) (jobs d) \<rparr>)"
| "run_stmt Connect d = Inr ([], d)"
| "run_stmt Begin d = Inr ([], d)"
| "run_stmt Commit d = Inr ([], d)"
| "run_stmt Rollback d = Inr ([], d)"

text \<open>
  A connection: the committed data \<open>db\<close>, the working copy \<open>tx\<close> of an open
  transaction, whether that transaction is in the failed state, and the statements sent
  so far.
\<close>

record conn =
  db :: store
  tx :: "store option"
  aborted :: bool
  trace :: "stmt list"

definition view :: "conn \<Rightarrow> store" where
  "view c = (case tx c of Some w \<Rightarrow> w | None \<Rightarrow> db c)"

definition put :: "store \<Rightarrow> conn \<Rightarrow> conn" where
  "put w c = (case tx c of Some u \<Rightarrow> c\<lparr> tx := Some w \<rparr> | None \<Rightarrow> c\<lparr> db := w \<rparr>)"

definition fail_in_tx :: "conn \<Rightarrow> conn" where
  "fail_in_tx c = (case tx c of Some w \<Rightarrow> c\<lparr> aborted := True \<rparr> | None \<Rightarrow> c)"

definition statement_failed :: error where
  "statement_failed = StoreError ''statement failed''"

definition transaction_aborted :: error where
  "transaction_aborted =
     StoreError ''current transaction is aborted, commands ignored until end of transaction block''"

definition client_query :: "faults \<Rightarrow> stmt \<Rightarrow> conn \<Rightarrow> (error + row list) \<times> conn" where
  "client_query F s c =
     (let c1 = c\<lparr> trace := trace c @ [s] \<rparr> in
      case s of
        Begin \<Rightarrow>
          if F s then (Inl statement_failed, c1)
          else (Inr [], c1\<lparr> tx := Some (db c1), aborted := False \<rparr>)
      | Commit \<Rightarrow>
          if F s then (Inl statement_failed, fail_in_tx c1)
          else
            (Inr [],
             case tx c1 of
               Some w \<Rightarrow>
                 if aborted c1 then c1\<lparr> tx := None, aborted := False \<rparr>
                 else c1\<lparr> db := w, tx := None \<rparr>
             | None \<Rightarrow> c1)
      | Rollback \<Rightarrow>
          if F s then (Inl statement_failed, c1)
          else (Inr [], c1\<lparr> tx := None, aborted := False \<rparr>)
      | _ \<Rightarrow>
          if F s then (Inl statement_failed, fail_in_tx c1)
          else if tx c1 \<noteq> None \<and> aborted c1 then (Inl transaction_aborted, c1)
          else
            (case run_stmt s (view c1) of
               Inl e \<Rightarrow> (Inl e, fail_in_tx c1)
             | Inr (rows, w) \<Rightarrow> (Inr rows, put w c1)))"

section \<open>DatabaseService\<close>

text \<open>The \<open>catch\<close> block of the transactional operations: roll back, then rethrow. When
  the rollback itself throws, that error replaces the original one.\<close>

definition rollback_and_throw :: "faults \<Rightarrow> error \<Rightarrow> conn \<Rightarrow> (error + 'a) \<times> conn" where
  "rollback_and_throw F e c =
     (case client_query F Rollback c of
        (Inl e', c') \<Rightarrow> (Inl e', c')
      | (Inr rs, c') \<Rightarrow> (Inl e, c'))"

record dependencies_result =
  dependencies :: "row list"
  dep_count :: nat

definition getJobDependencies ::
  "faults \<Rightarrow> string \<Rightarrow> conn \<Rightarrow> (error + dependencies_result) \<times> conn" where
  "getJobDependencies F jobId c =
     (case client_query F (SelectDepsByJob jobId) c of
        (Inl e, c') \<Rightarrow> (Inl e, c')
      | (Inr rows, c') \<Rightarrow> (Inr \<lparr> dependencies = rows, dep_count = length rows \<rparr>, c'))"

definition job_not_found :: "string \<Rightarrow> error" where
  "job_not_found jobId = NotFound (''Job with ID '' @ jobId @ '' does not exist'')"

text \<open>
  \<open>deleteJob\<close>. Taking the client from the pool happens before the \<open>try\<close>, so a
  failure there sends no statement at all; every later throw reaches the \<open>catch\<close>
  block, except the one of the dependency delete, which has a \<open>try\<close> of its own that
  logs and goes on to the next statement. The identifier returned is read
  from the first row of the job delete, after the commit. Giving the client back to the
  pool in \<open>finally\<close> does not touch the data and is left out.
\<close>

definition deleteJob :: "faults \<Rightarrow> string \<Rightarrow> conn \<Rightarrow> (error + string) \<times> conn" where
  "deleteJob F jobId c0 =
     (if F Connect then (Inl (StoreError ''connection failed''), c0)
      else case client_query F Begin c0 of
        (Inl e, c1) \<Rightarrow> rollback_and_throw F e c1
      | (Inr rs1, c1) \<Rightarrow>
      (case client_query F (SelectJobById jobId) c1 of
        (Inl e, c2) \<Rightarrow> rollback_and_throw F e c2
      | (Inr jobCheck, c2) \<Rightarrow>
      if length jobCheck = 0 then rollback_and_throw F (job_not_found jobId) c2
      else
      (case client_query F (DeleteDepsByJob jobId) c2 of
        (skipped, c3) \<Rightarrow>
      (case client_query F (DeleteTasksByJob jobId) c3 of
        (Inl e, c4) \<Rightarrow> rollback_and_throw F e c4
      | (Inr rs4, c4) \<Rightarrow>
      (case client_query F (DeleteJobById jobId) c4 of
        (Inl e, c5) \<Rightarrow> rollback_and_throw F e c5
      | (Inr deleteResult, c5) \<Rightarrow>
      (case client_query F Commit c5 of
        (Inl e, c6) \<Rightarrow> rollback_and_throw F e c6
      | (Inr rs6, c6) \<Rightarrow>
      (case deleteResult of
        IdRow i # rest \<Rightarrow> (Inr i, c6)
      | _ \<Rightarrow> rollback_and_throw F (TypeError ''Cannot read properties of undefined'') c6)))))))"

record clear_result =
  deletedJobsCount :: nat
  deletedJobIds :: "string list option"
  message :: string

text \<open>
  \<open>clearCompletedJobs\<close> and \<open>clearFailedJobs\<close> are the same text up to the state
  literal and the word in the messages; \<open>clearJobsInState\<close> is that text.
\<close>

fun row_id :: "row \<Rightarrow> string" where
  "row_id (IdRow i) = i"
| "row_id (DepRow a b) = []"
| "row_id (CountRow n) = []"

definition clearJobsInState ::
  "string \<Rightarrow> string \<Rightarrow> faults \<Rightarrow> conn \<Rightarrow> (error + clear_result) \<times> conn" where
  "clearJobsInState st word F c0 =
     (if F Connect then (Inl (StoreError ''connection failed''), c0)
      else case client_query F Begin c0 of
        (Inl e, c1) \<Rightarrow> rollback_and_throw F e c1
      | (Inr rs1, c1) \<Rightarrow>
      (case client_query F (CountJobsByState st) c1 of
        (Inl e, c2) \<Rightarrow> rollback_and_throw F e c2
      | (Inr countResult, c2) \<Rightarrow>
      (case countResult of
        CountRow jobsCount # rest \<Rightarrow>
          if jobsCount = 0 then
            (case client_query F Commit c2 of
               (Inl e, c3) \<Rightarrow> rollback_and_throw F e c3
             | (Inr rs3, c3) \<Rightarrow>
                 (Inr \<lparr> deletedJobsCount = 0, deletedJobIds = None,
                        message = ''No '' @ word @ '' jobs found to delete'' \<rparr>, c3))
          else
          (case client_query F (SelectJobIdsByState st) c2 of
            (Inl e, c3) \<Rightarrow> rollback_and_throw F e c3
          | (Inr jobIdsResult, c3) \<Rightarrow>
          (case client_query F (DeleteDepsByJobState st) c3 of
            (skipped, c4) \<Rightarrow>
          (case client_query F (DeleteTasksByJobState st) c4 of
            (Inl e, c5) \<Rightarrow> rollback_and_throw F e c5
          | (Inr rs5, c5) \<Rightarrow>
          (case client_query F (DeleteJobsByState st) c5 of
            (Inl e, c6) \<Rightarrow> rollback_and_throw F e c6
          | (Inr rs6, c6) \<Rightarrow>
          (case client_query F Commit c6 of
            (Inl e, c7) \<Rightarrow> rollback_and_throw F e c7
          | (Inr rs7, c7) \<Rightarrow>
              (Inr \<lparr> deletedJobsCount = jobsCount,
                     deletedJobIds = Some (map row_id jobIdsResult),
                     message = ''Successfully deleted '' @ string_of_nat jobsCount @ '' '' @ word
                               @ '' job(s)'' \<rparr>, c7))))))
      | _ \<Rightarrow> rollback_and_throw F (TypeError ''Cannot read properties of undefined'') c2)))"

definition clearCompletedJobs :: "faults \<Rightarrow> conn \<Rightarrow> (error + clear_result) \<times> conn" where
  "clearCompletedJobs = clearJobsInState ''done'' ''completed''"

definition clearFailedJobs :: "faults \<Rightarrow> conn \<Rightarrow> (error + clear_result) \<times> conn" where
  "clearFailedJobs = clearJobsInState ''failed'' ''failed''"

section \<open>AutoClearService\<close>

record auto_clear_config =
  enabled :: bool
  interval :: nat
  clearCompleted :: bool
  clearFailed :: bool

subsection \<open>The sweep\<close>

text \<open>
  \<open>performAutoClear\<close> fills an object with one entry per branch: the branch's result
  under \<open>completed\<close> or \<open>failed\<close>, or the message of the error it threw under
  \<open>completedError\<close> or \<open>failedError\<close>. The running total goes to the console only.
  The object is an association list in insertion order; the console output is a list of
  lines. Every call that can throw sits in the \<open>try\<close> of its branch, so the outer
  \<open>catch\<close>, which rethrows, is never entered; the result type keeps the possibility
  of a throw so that its absence is a statement about the function.
\<close>

datatype sweep_entry = Outcome clear_result | ErrorMessage string

datatype log_line =
    LogPerforming
  | LogCleared string nat
  | LogBranchError string string
  | LogTotal nat
  | LogNothingToClear

definition performAutoClear ::
  "auto_clear_config \<Rightarrow> faults \<Rightarrow> conn \<Rightarrow>
     (error + (string \<times> sweep_entry) list) \<times> log_line list \<times> conn" where
  "performAutoClear cfg F c0 =
     (let log0 = [LogPerforming];
          totalCleared0 = (0::nat);
          results0 = [];
          (results1, totalCleared1, log1, c1) =
            (if clearCompleted cfg then
               (case clearCompletedJobs F c0 of
                  (Inr completedResult, c) \<Rightarrow>
                    (results0 @ [(''completed'', Outcome completedResult)],
                     totalCleared0 + deletedJobsCount completedResult,
                     log0 @ [LogCleared ''completed'' (deletedJobsCount completedResult)], c)
                | (Inl e, c) \<Rightarrow>
                    (results0 @ [(''completedError'', ErrorMessage (message_of e))],
                     totalCleared0,
                     log0 @ [LogBranchError ''completed'' (message_of e)], c))
             else (results0, totalCleared0, log0, c0));
          (results2, totalCleared2, log2, c2) =
            (if clearFailed cfg then
               (case clearFailedJobs F c1 of
                  (Inr failedResult, c) \<Rightarrow>
                    (results1 @ [(''failed'', Outcome failedResult)],
                     totalCleared1 + deletedJobsCount failedResult,
                     log1 @ [LogCleared ''failed'' (deletedJobsCount failedResult)], c)
                | (Inl e, c) \<Rightarrow>
                    (results1 @ [(''failedError'', ErrorMessage (message_of e))],
                     totalCleared1,
                     log1 @ [LogBranchError ''failed'' (message_of e)], c))
             else (results1, totalCleared1, log1, c1));
          log3 = log2 @ [if totalCleared2 > 0 then LogTotal totalCleared2 else LogNothingToClear]
      in (Inr results2, log3, c2))"

definition triggerManualClear ::
  "auto_clear_config \<Rightarrow> faults \<Rightarrow> conn \<Rightarrow>
     (error + (string \<times> sweep_entry) list) \<times> log_line list \<times> conn" where
  "triggerManualClear = performAutoClear"

text \<open>What one branch contributes to the result object.\<close>

definition branch_entry :: "string \<Rightarrow> error + clear_result \<Rightarrow> string \<times> sweep_entry" where
  "branch_entry key r =
     (case r of
        Inr res \<Rightarrow> (key, Outcome res)
      | Inl e \<Rightarrow> (key @ ''Error'', ErrorMessage (message_of e)))"

definition branch_count :: "error + clear_result \<Rightarrow> nat" where
  "branch_count r = (case r of Inr res \<Rightarrow> deletedJobsCount res | Inl e \<Rightarrow> 0)"

subsection \<open>Timers and the life cycle\<close>

text \<open>
  The runtime's timers: \<open>setInterval\<close> and \<open>setTimeout\<close> arm a timer and return its
  handle, \<open>clearInterval\<close> disarms the timer with the given handle. Every timer the
  service arms calls \<open>performAutoClear\<close>, so a timer that fires is a sweep. Times are in
  milliseconds. The runtime replaces a delay below 1 or above \<open>2^31 - 1\<close> by 1.
\<close>

datatype timer =
    IntervalTimer nat nat nat
  | TimeoutTimer nat nat nat

fun timer_id :: "timer \<Rightarrow> nat" where
  "timer_id (IntervalTimer i a p) = i"
| "timer_id (TimeoutTimer i a d) = i"

record runtime =
  now :: nat
  next_id :: nat
  pending :: "timer list"

definition clamp_delay :: "nat \<Rightarrow> nat" where
  "clamp_delay d = (if d < 1 \<or> d > 2147483647 then 1 else d)"

definition setInterval :: "nat \<Rightarrow> runtime \<Rightarrow> nat \<times> runtime" where
  "setInterval d rt =
     (next_id rt,
      rt\<lparr> pending := pending rt @ [IntervalTimer (next_id rt) (now rt) (clamp_delay d)],
          next_id := next_id rt + 1 \<rparr>)"

definition setTimeout :: "nat \<Rightarrow> runtime \<Rightarrow> nat \<times> runtime" where
  "setTimeout d rt =
     (next_id rt,
      rt\<lparr> pending := pending rt @ [TimeoutTimer (next_id rt) (now rt) (clamp_delay d)],
          next_id := next_id rt + 1 \<rparr>)"

definition clearInterval :: "nat \<Rightarrow> runtime \<Rightarrow> runtime" where
  "clearInterval i rt = rt\<lparr> pending := filter (\<lambda>t. timer_id t \<noteq> i) (pending rt) \<rparr>"

text \<open>A pending timer fires at time \<open>t\<close>: a one-shot timer once, when its delay has
  passed; a recurring timer after every full period.\<close>

fun fires_at :: "nat \<Rightarrow> timer \<Rightarrow> bool" where
  "fires_at t (TimeoutTimer i a d) = (t = a + d)"
| "fires_at t (IntervalTimer i a p) = (a < t \<and> (t - a) mod p = 0)"

definition sweep_fires :: "runtime \<Rightarrow> nat \<Rightarrow> bool" where
  "sweep_fires rt t = (now rt \<le> t \<and> list_ex (fires_at t) (pending rt))"

text \<open>Time passes up to \<open>t\<close>: one-shot timers that were due before \<open>t\<close> have fired and
  are gone, recurring timers stay armed.\<close>

fun still_pending :: "nat \<Rightarrow> timer \<Rightarrow> bool" where
  "still_pending t (TimeoutTimer i a d) = (t \<le> a + d)"
| "still_pending t (IntervalTimer i a p) = True"

definition elapse :: "nat \<Rightarrow> runtime \<Rightarrow> runtime" where
  "elapse t rt =
     (if t \<le> now rt then rt
      else rt\<lparr> now := t, pending := filter (still_pending t) (pending rt) \<rparr>)"

record auto_clear_service =
  intervalId :: "nat option"
  isRunning :: bool

definition new_service :: auto_clear_service where
  "new_service = \<lparr> intervalId = None, isRunning = False \<rparr>"

definition start ::
  "auto_clear_config \<Rightarrow> auto_clear_service \<times> runtime \<Rightarrow> auto_clear_service \<times> runtime" where
  "start cfg sr =
     (case sr of (svc, rt) \<Rightarrow>
        if \<not> enabled cfg then (svc, rt)
        else if isRunning svc then (svc, rt)
        else
          let (h, rt1) = setInterval (interval cfg) rt;
              svc1 = svc\<lparr> intervalId := Some h, isRunning := True \<rparr>;
              (h2, rt2) = setTimeout 5000 rt1
          in (svc1, rt2))"

definition stop :: "auto_clear_service \<times> runtime \<Rightarrow> auto_clear_service \<times> runtime" where
  "stop sr =
     (case sr of (svc, rt) \<Rightarrow>
        (case intervalId svc of
           Some h \<Rightarrow> (svc\<lparr> intervalId := None, isRunning := False \<rparr>, clearInterval h rt)
         | None \<Rightarrow> (svc, rt)))"

definition pass_time ::
  "nat \<Rightarrow> auto_clear_service \<times> runtime \<Rightarrow> auto_clear_service \<times> runtime" where
  "pass_time t sr = (case sr of (svc, rt) \<Rightarrow> (svc, elapse t rt))"

definition fresh_runtime :: "nat \<Rightarrow> runtime" where
  "fresh_runtime t0 = \<lparr> now = t0, next_id = 1, pending = [] \<rparr>"

section \<open>Example data\<close>

text \<open>A store with three jobs, two of them done, the tasks of two of them and one
  dependency edge; the same store in a deployment without the table of dependency edges;
  and stores in which one statement fails.\<close>

definition example_job :: "string \<Rightarrow> string \<Rightarrow> job" where
  "example_job i st =
     \<lparr> j_id = i, j_state = st, j_error = None, j_user_id = ''u1'', j_reported = False \<rparr>"

definition example_store :: store where
  "example_store =
     \<lparr> jobs = [example_job ''1'' ''done'', example_job ''2'' ''failed'', example_job ''3'' ''done''],
       tasks = [\<lparr> t_job_id = ''1'', t_task_id = ''a'', t_state = ''done'' \<rparr>,
                \<lparr> t_job_id = ''1'', t_task_id = ''b'', t_state = ''done'' \<rparr>,
                \<lparr> t_job_id = ''2'', t_task_id = ''a'', t_state = ''failed'' \<rparr>],
       task_deps = Some [\<lparr> d_job_id = ''1'', d_pre_task_id = ''a'', d_post_task_id = ''b'' \<rparr>] \<rparr>"

definition example_conn :: conn where
  "example_conn = \<lparr> db = example_store, tx = None, aborted = False, trace = [] \<rparr>"

definition conn_without_deps :: conn where
  "conn_without_deps =
     \<lparr> db = example_store\<lparr> task_deps := None \<rparr>, tx = None, aborted = False, trace = [] \<rparr>"

definition deps_delete_fails :: faults where
  "deps_delete_fails s = (s = DeleteDepsByJob ''1'')"

definition tasks_delete_fails :: faults where
  "tasks_delete_fails s = (s = DeleteTasksByJob ''1'')"

definition done_tasks_delete_fails :: faults where
  "done_tasks_delete_fails s = (s = DeleteTasksByJobState ''done'')"

text \<open>The documented default configuration with the service switched on and both
  branches enabled, and one with an interval of one second.\<close>

definition hourly_config :: auto_clear_config where
  "hourly_config =
     \<lparr> enabled = True, interval = 3600000, clearCompleted = True, clearFailed = True \<rparr>"

definition fast_config :: auto_clear_config where
  "fast_config =
     \<lparr> enabled = True, interval = 1000, clearCompleted = True, clearFailed = True \<rparr>"

section \<open>Properties of the QueryBuilder\<close>

lemmas qb_defs = qb_select_def qb_from_def qb_join_def qb_where_def qb_groupBy_def
  qb_orderBy_def qb_limit_def qb_offset_def

lemma select_foldl:
  "selectFields (foldl apply_call b cs) = None \<longleftrightarrow>
     selectFields b = None \<and> (\<forall>c \<in> set cs. \<not> is_select c)"
proof (induction cs arbitrary: b)
  case Nil
  show ?case by simp
next
  case (Cons c cs)
  show ?case by (cases c) (simp_all add: Cons.IH qb_defs split: option.splits)
qed

lemma params_foldl:
  "params (foldl apply_call b cs) = params b @ where_values cs"
proof (induction cs arbitrary: b)
  case Nil
  show ?case by simp
next
  case (Cons c cs)
  show ?case by (cases c) (simp_all add: Cons.IH qb_defs split: option.splits)
qed

lemma paramIndex_foldl:
  "paramIndex (foldl apply_call b cs) = paramIndex b + length (where_values cs)"
proof (induction cs arbitrary: b)
  case Nil
  show ?case by simp
next
  case (Cons c cs)
  show ?case by (cases c) (simp_all add: Cons.IH qb_defs split: option.splits)
qed

lemma where_foldl:
  "map w_condition (whereConditions (foldl apply_call b cs)) =
     map w_condition (whereConditions b) @ numbered_wheres (paramIndex b) cs"
proof (induction cs arbitrary: b)
  case Nil
  show ?case by simp
next
  case (Cons c cs)
  show ?case by (cases c) (simp_all add: Cons.IH qb_defs split: option.splits)
qed

lemma limit_foldl:
  "limitValue (foldl apply_call b cs) = last_limit (limitValue b) cs"
proof (induction cs arbitrary: b)
  case Nil
  show ?case by simp
next
  case (Cons c cs)
  show ?case by (cases c) (simp_all add: Cons.IH qb_defs split: option.splits)
qed

lemma offset_foldl:
  "offsetValue (foldl apply_call b cs) = last_offset (offsetValue b) cs"
proof (induction cs arbitrary: b)
  case Nil
  show ?case by simp
next
  case (Cons c cs)
  show ?case by (cases c) (simp_all add: Cons.IH qb_defs split: option.splits)
qed

lemma replace_first_split:
  "p \<notin> set pre \<Longrightarrow> replace_first p r (pre @ p # post) = pre @ r @ post"
  by (induction pre) auto

lemma marker_Suc_0: "marker (Suc 0) = ''$1''"
  by (simp add: marker_def string_of_nat.simps digit_char_def)

lemma example_build:
  "build_calls example_calls =
     Inr \<lparr> query = ''SELECT id FROM jobs WHERE state = $1 LIMIT $2 OFFSET $3'',
           r_params = [JStr ''done'', JNum 10, JNum 5] \<rparr>"
  by code_simp

lemma example_counts:
  "count_sub ''WHERE'' ''SELECT id FROM jobs WHERE state = $1 LIMIT $2 OFFSET $3'' = 1"
  "count_sub ''LIMIT'' ''SELECT id FROM jobs WHERE state = $1 LIMIT $2 OFFSET $3'' = 1"
  "count_sub ''OFFSET'' ''SELECT id FROM jobs WHERE state = $1 LIMIT $2 OFFSET $3'' = 1"
  by code_simp+

lemma build_general:
  assumes "build_calls cs = Inr r"
  shows "r_params r =
           where_values cs @ opt_list (last_limit None cs) @ opt_list (last_offset None cs)"
    and "\<exists>fs. selectFields (run_calls cs) = Some fs \<and>
           query r = base_text fs (run_calls cs) @ limit_clause cs @ offset_clause cs"
    and "map w_condition (whereConditions (run_calls cs)) = numbered_wheres 1 cs"
proof -
  let ?b = "run_calls cs"
  have p: "params ?b = where_values cs"
    by (simp add: run_calls_def params_foldl new_builder_def)
  have i: "paramIndex ?b = length (where_values cs) + 1"
    by (simp add: run_calls_def paramIndex_foldl new_builder_def)
  have l: "limitValue ?b = last_limit None cs"
    by (simp add: run_calls_def limit_foldl new_builder_def)
  have off: "offsetValue ?b = last_offset None cs"
    by (simp add: run_calls_def offset_foldl new_builder_def)
  from assms obtain fs where fs: "selectFields ?b = Some fs"
    by (cases "selectFields ?b") (auto simp: build_calls_def build_def)
  from assms fs p i l off
  show "r_params r =
          where_values cs @ opt_list (last_limit None cs) @ opt_list (last_offset None cs)"
    by (cases "last_limit None cs"; cases "last_offset None cs")
       (auto simp: build_calls_def build_def Let_def)
  from assms fs p i l off
  have "query r = base_text fs ?b @ limit_clause cs @ offset_clause cs"
    by (cases "last_limit None cs"; cases "last_offset None cs")
       (auto simp: build_calls_def build_def Let_def limit_clause_def offset_clause_def)
  with fs show "\<exists>fs. selectFields ?b = Some fs \<and>
           query r = base_text fs ?b @ limit_clause cs @ offset_clause cs"
    by simp
  show "map w_condition (whereConditions ?b) = numbered_wheres 1 cs"
    by (simp add: run_calls_def where_foldl new_builder_def)
qed

text \<open>
  C8. The call sequence select id, from jobs, where state = ? with the value done,
  limit 10, offset 5 builds the statement
  \<open>SELECT id FROM jobs WHERE state = $1 LIMIT $2 OFFSET $3\<close> with the parameters
  done, 10, 5: one WHERE, one LIMIT and one OFFSET, in that order, with the markers 1, 2
  and 3. For every call sequence that builds, the result is a function of the sequence,
  and the parameters are the values of the where calls in call order, then the limit,
  then the offset; the where conditions carry the markers numbered from 1 in call order,
  the LIMIT clause carries the next marker and the OFFSET clause the one after it, and
  these two clauses end the statement.
\<close>

theorem build_marker_order:
  "build_calls example_calls =
     Inr \<lparr> query = ''SELECT id FROM jobs WHERE state = $1 LIMIT $2 OFFSET $3'',
           r_params = [JStr ''done'', JNum 10, JNum 5] \<rparr>
   \<and> count_sub ''WHERE'' ''SELECT id FROM jobs WHERE state = $1 LIMIT $2 OFFSET $3'' = 1
   \<and> count_sub ''LIMIT'' ''SELECT id FROM jobs WHERE state = $1 LIMIT $2 OFFSET $3'' = 1
   \<and> count_sub ''OFFSET'' ''SELECT id FROM jobs WHERE state = $1 LIMIT $2 OFFSET $3'' = 1
   \<and> (build_calls cs = Inr r \<longrightarrow>
        r_params r =
          where_values cs @ opt_list (last_limit None cs) @ opt_list (last_offset None cs)
        \<and> map w_condition (whereConditions (run_calls cs)) = numbered_wheres 1 cs
        \<and> (\<exists>fs. selectFields (run_calls cs) = Some fs \<and>
              query r = base_text fs (run_calls cs) @ limit_clause cs @ offset_clause cs))"
  using example_build example_counts build_general [of cs r] by blast

theorem build_marker_order_witness:
  "build_calls example_calls =
     Inr \<lparr> query = ''SELECT id FROM jobs WHERE state = $1 LIMIT $2 OFFSET $3'',
           r_params = [JStr ''done'', JNum 10, JNum 5] \<rparr>
   \<and> [JStr ''done'', JNum 10, JNum 5] =
       where_values example_calls @ opt_list (last_limit None example_calls)
         @ opt_list (last_offset None example_calls)
   \<and> limit_clause example_calls = '' LIMIT $2''
   \<and> offset_clause example_calls = '' OFFSET $3''"
proof -
  have "limit_clause example_calls = '' LIMIT $2''"
    and "offset_clause example_calls = '' OFFSET $3''"
    by code_simp+
  then show ?thesis
    using build_marker_order
      [of example_calls "\<lparr> query = ''SELECT id FROM jobs WHERE state = $1 LIMIT $2 OFFSET $3'',
           r_params = [JStr ''done'', JNum 10, JNum 5] \<rparr>"]
    by simp
qed

text \<open>
  C9. On a fresh builder, a call sequence without a select call makes build throw the
  error that the SELECT clause is required; a call sequence with a select call makes
  build return a statement.
\<close>

theorem build_requires_select:
  "((\<forall>c \<in> set cs. \<not> is_select c) \<longrightarrow>
      build_calls cs = Inl (MissingClause ''SELECT clause is required''))
   \<and> ((\<exists>c \<in> set cs. is_select c) \<longrightarrow> (\<exists>r. build_calls cs = Inr r))"
proof -
  have none: "selectFields (run_calls cs) = None \<longleftrightarrow> (\<forall>c \<in> set cs. \<not> is_select c)"
    by (simp add: run_calls_def select_foldl new_builder_def)
  show ?thesis
  proof (cases "selectFields (run_calls cs)")
    case None
    then show ?thesis using none by (simp add: build_calls_def build_def)
  next
    case (Some fs)
    then show ?thesis using none
      by (auto simp: build_calls_def build_def Let_def split: option.splits prod.splits)
  qed
qed

theorem build_requires_select_witness:
  "build_calls [From ''jobs'', Limit (Some (JNum 3))] =
     Inl (MissingClause ''SELECT clause is required'')
   \<and> (\<exists>r. build_calls [Select (Field ''id''), From ''jobs''] = Inr r)"
  using build_requires_select [of "[From ''jobs'', Limit (Some (JNum 3))]"]
        build_requires_select [of "[Select (Field ''id''), From ''jobs'']"]
  by simp

text \<open>
  C10. A where call with a value, on a template whose first question mark stands after
  \<open>pre\<close> and before \<open>post\<close>, stores the template with that question mark replaced by
  the marker of the current index and the rest unchanged, appends the value once to the
  parameters and advances the index by one. The statement built after select, from and
  this where call has the text \<open>pre\<close>, the marker, \<open>post\<close> as its WHERE clause:
  question marks in \<open>post\<close> stay as they are.
\<close>

theorem where_replaces_first_placeholder:
  "CHR ''?'' \<notin> set pre \<Longrightarrow>
     qb_where (pre @ CHR ''?'' # post) (Some v) b =
       b\<lparr> whereConditions := whereConditions b @
            [\<lparr> w_condition = pre @ marker (paramIndex b) @ post, w_value = Some v \<rparr>],
          params := params b @ [v],
          paramIndex := paramIndex b + 1 \<rparr>
     \<and> build_calls [Select fs, From t, Where (pre @ CHR ''?'' # post) (Some v)] =
         Inr \<lparr> query = ''SELECT '' @ js_join '', '' (as_array fs) @ '' FROM '' @ t
                        @ '' WHERE '' @ pre @ ''$1'' @ post,
               r_params = [v] \<rparr>"
  by (simp add: qb_where_def replace_first_split build_calls_def build_def run_calls_def
      new_builder_def qb_select_def qb_from_def base_text_def joins_text_def where_text_def
      group_text_def order_text_def marker_Suc_0)

theorem where_replaces_first_placeholder_witness:
  "CHR ''?'' \<notin> set ''a = '' \<and>
   build_calls [Select (Field ''id''), From ''jobs'',
                Where ''a = ? OR b = ?'' (Some (JNum 7))] =
     Inr \<lparr> query = ''SELECT id FROM jobs WHERE a = $1 OR b = ?'', r_params = [JNum 7] \<rparr>"
  using where_replaces_first_placeholder
    [of "''a = ''" "'' OR b = ?''" "JNum 7" new_builder "Field ''id''" "''jobs''"]
  by simp

section \<open>Properties of the DatabaseService\<close>

lemma no_rows_iff:
  "filter (\<lambda>j. j_id j = i) js = [] \<longleftrightarrow> i \<notin> j_id ` set js"
  by (auto simp: filter_empty_conv)

lemma first_row:
  "i \<in> j_id ` set js \<Longrightarrow>
     \<exists>rest. map (\<lambda>j. IdRow (j_id j)) (filter (\<lambda>j. j_id j = i) js) = IdRow i # rest"
proof -
  assume "i \<in> j_id ` set js"
  then have "filter (\<lambda>j. j_id j = i) js \<noteq> []"
    by (simp add: no_rows_iff)
  then obtain x xs where eq: "filter (\<lambda>j. j_id j = i) js = x # xs"
    by (cases "filter (\<lambda>j. j_id j = i) js") auto
  then have "x \<in> set (filter (\<lambda>j. j_id j = i) js)"
    by simp
  then have "j_id x = i"
    by simp
  with eq show ?thesis by simp
qed

subsection \<open>One statement at a time\<close>

lemma cq_begin:
  "\<not> F Begin \<Longrightarrow> client_query F Begin c =
     (Inr [], \<lparr> db = db c, tx = Some (db c), aborted = False, trace = trace c @ [Begin] \<rparr>)"
  by (simp add: client_query_def)

lemma cq_begin_fault:
  "F Begin \<Longrightarrow> client_query F Begin c =
     (Inl statement_failed,
      \<lparr> db = db c, tx = tx c, aborted = aborted c, trace = trace c @ [Begin] \<rparr>)"
  by (simp add: client_query_def)

lemma cq_rollback:
  "\<not> F Rollback \<Longrightarrow> client_query F Rollback c =
     (Inr [], \<lparr> db = db c, tx = None, aborted = False, trace = trace c @ [Rollback] \<rparr>)"
  by (simp add: client_query_def)

lemma cq_rollback_fault:
  "F Rollback \<Longrightarrow> client_query F Rollback c =
     (Inl statement_failed,
      \<lparr> db = db c, tx = tx c, aborted = aborted c, trace = trace c @ [Rollback] \<rparr>)"
  by (simp add: client_query_def)

lemma cq_commit:
  "\<not> F Commit \<Longrightarrow>
   client_query F Commit \<lparr> db = D, tx = Some W, aborted = False, trace = T \<rparr> =
     (Inr [], \<lparr> db = W, tx = None, aborted = False, trace = T @ [Commit] \<rparr>)"
  by (simp add: client_query_def)

lemma cq_commit_fault:
  "F Commit \<Longrightarrow>
   client_query F Commit \<lparr> db = D, tx = Some W, aborted = A, trace = T \<rparr> =
     (Inl statement_failed, \<lparr> db = D, tx = Some W, aborted = True, trace = T @ [Commit] \<rparr>)"
  by (simp add: client_query_def fail_in_tx_def)

lemma cq_data:
  "\<not> F s \<Longrightarrow> s \<noteq> Begin \<Longrightarrow> s \<noteq> Commit \<Longrightarrow> s \<noteq> Rollback \<Longrightarrow>
   client_query F s \<lparr> db = D, tx = Some W, aborted = False, trace = T \<rparr> =
     (case run_stmt s W of
        Inl e \<Rightarrow> (Inl e, \<lparr> db = D, tx = Some W, aborted = True, trace = T @ [s] \<rparr>)
      | Inr (rows, W') \<Rightarrow>
          (Inr rows, \<lparr> db = D, tx = Some W', aborted = False, trace = T @ [s] \<rparr>))"
  by (cases s)
     (simp_all add: client_query_def view_def put_def fail_in_tx_def Let_def
        split: sum.splits option.splits)

lemma cq_data_fault:
  "F s \<Longrightarrow> s \<noteq> Begin \<Longrightarrow> s \<noteq> Commit \<Longrightarrow> s \<noteq> Rollback \<Longrightarrow>
   client_query F s \<lparr> db = D, tx = Some W, aborted = A, trace = T \<rparr> =
     (Inl statement_failed, \<lparr> db = D, tx = Some W, aborted = True, trace = T @ [s] \<rparr>)"
  by (cases s) (simp_all add: client_query_def fail_in_tx_def)

text \<open>In a failed transaction no statement runs.\<close>

lemma cq_when_aborted:
  "s \<noteq> Begin \<Longrightarrow> s \<noteq> Commit \<Longrightarrow> s \<noteq> Rollback \<Longrightarrow>
   client_query F s \<lparr> db = D, tx = Some W, aborted = True, trace = T \<rparr> =
     (Inl (if F s then statement_failed else transaction_aborted),
      \<lparr> db = D, tx = Some W, aborted = True, trace = T @ [s] \<rparr>)"
  by (cases s) (simp_all add: client_query_def fail_in_tx_def)

lemma rb_eq:
  "rollback_and_throw F e c =
     (Inl (if F Rollback then statement_failed else e),
      \<lparr> db = db c,
        tx = (if F Rollback then tx c else None),
        aborted = (if F Rollback then aborted c else False),
        trace = trace c @ [Rollback] \<rparr>)"
  by (cases "F Rollback")
     (simp_all add: rollback_and_throw_def cq_rollback cq_rollback_fault)

lemmas cq_steps = cq_begin cq_begin_fault cq_commit cq_commit_fault cq_data cq_data_fault
  cq_when_aborted rb_eq

text \<open>Inside a transaction the committed data, which is what other readers see, changes
  at COMMIT only, and a failed transaction commits nothing.\<close>

lemma committed_data_changes_at_commit_only:
  assumes "tx c = Some w" and "s \<noteq> Commit"
  shows "db (snd (client_query F s c)) = db c"
  using assms
  by (cases s)
     (simp_all add: client_query_def view_def put_def fail_in_tx_def Let_def
        split: sum.splits option.splits)

lemma failed_transaction_commits_nothing:
  assumes "tx c = Some w" and "aborted c"
  shows "db (snd (client_query F s c)) = db c"
  using assms
  by (cases s)
     (simp_all add: client_query_def view_def put_def fail_in_tx_def Let_def
        split: sum.splits option.splits)

subsection \<open>deleteJob\<close>

lemma deleteJob_missing_aux:
  assumes "jobId \<notin> j_id ` set (jobs (db c))"
  shows "db (snd (deleteJob F jobId c)) = db c"
    and "\<exists>e. fst (deleteJob F jobId c) = Inl e"
    and "\<not> F Connect \<Longrightarrow> \<not> F Begin \<Longrightarrow> \<not> F (SelectJobById jobId) \<Longrightarrow> \<not> F Rollback \<Longrightarrow>
           deleteJob F jobId c =
             (Inl (job_not_found jobId),
              \<lparr> db = db c, tx = None, aborted = False,
                trace = trace c @ [Begin, SelectJobById jobId, Rollback] \<rparr>)"
    and "set (trace (snd (deleteJob F jobId c))) \<subseteq>
           set (trace c) \<union> {Begin, SelectJobById jobId, Rollback}"
proof -
  consider (a) "F Connect" | (b) "\<not> F Connect" "F Begin"
    | (c) "\<not> F Connect" "\<not> F Begin" "F (SelectJobById jobId)"
    | (d) "\<not> F Connect" "\<not> F Begin" "\<not> F (SelectJobById jobId)"
    by blast
  then have "(db (snd (deleteJob F jobId c)) = db c \<and> (\<exists>e. fst (deleteJob F jobId c) = Inl e))
    \<and> set (trace (snd (deleteJob F jobId c))) \<subseteq>
           set (trace c) \<union> {Begin, SelectJobById jobId, Rollback}"
  proof cases
    case a
    then show ?thesis by (auto simp add: deleteJob_def)
  next
    case b
    then show ?thesis by (auto simp add: deleteJob_def cq_steps)
  next
    case c
    then show ?thesis by (auto simp add: deleteJob_def cq_steps)
  next
    case d
    then show ?thesis using assms by (auto simp add: deleteJob_def cq_steps no_rows_iff)
  qed
  then show "db (snd (deleteJob F jobId c)) = db c"
    and "\<exists>e. fst (deleteJob F jobId c) = Inl e"
    and "set (trace (snd (deleteJob F jobId c))) \<subseteq>
           set (trace c) \<union> {Begin, SelectJobById jobId, Rollback}"
    by blast+
  show "\<not> F Connect \<Longrightarrow> \<not> F Begin \<Longrightarrow> \<not> F (SelectJobById jobId) \<Longrightarrow> \<not> F Rollback \<Longrightarrow>
           deleteJob F jobId c =
             (Inl (job_not_found jobId),
              \<lparr> db = db c, tx = None, aborted = False,
                trace = trace c @ [Begin, SelectJobById jobId, Rollback] \<rparr>)"
    using assms by (simp add: deleteJob_def cq_steps no_rows_iff)
qed

text \<open>Every statement succeeds: the three deletes run in order and are committed.\<close>

lemma deleteJob_ok:
  assumes ex: "jobId \<in> j_id ` set (jobs (db c))"
    and nf: "\<not> F Connect" "\<not> F Begin" "\<not> F (SelectJobById jobId)"
      "\<not> F (DeleteDepsByJob jobId)" "\<not> F (DeleteTasksByJob jobId)"
      "\<not> F (DeleteJobById jobId)" "\<not> F Commit"
    and table: "task_deps (db c) = Some ds"
  shows "deleteJob F jobId c =
     (Inr jobId,
      \<lparr> db = (db c)\<lparr> jobs := filter (\<lambda>j. j_id j \<noteq> jobId) (jobs (db c)),
                      tasks := filter (\<lambda>t. t_job_id t \<noteq> jobId) (tasks (db c)),
                      task_deps := Some (filter (\<lambda>e. d_job_id e \<noteq> jobId) ds) \<rparr>,
        tx = None, aborted = False,
        trace = trace c @ [Begin, SelectJobById jobId, DeleteDepsByJob jobId,
                           DeleteTasksByJob jobId, DeleteJobById jobId, Commit] \<rparr>)"
proof -
  from first_row [OF ex] obtain rest where
    rows: "map (\<lambda>j. IdRow (j_id j)) (filter (\<lambda>j. j_id j = jobId) (jobs (db c))) = IdRow jobId # rest"
    ..
  show ?thesis
    using nf table by (simp add: deleteJob_def cq_steps rows)
qed

text \<open>A statement after the existence check fails: ROLLBACK is the last statement sent,
  and nothing is committed.\<close>

lemma deleteJob_rolled_back:
  assumes ex: "jobId \<in> j_id ` set (jobs (db c))"
    and nf: "\<not> F Connect" "\<not> F Begin" "\<not> F (SelectJobById jobId)"
    and f: "F (DeleteDepsByJob jobId) \<or> task_deps (db c) = None
            \<or> F (DeleteTasksByJob jobId) \<or> F (DeleteJobById jobId) \<or> F Commit"
  shows "(\<exists>e. fst (deleteJob F jobId c) = Inl e)
       \<and> db (snd (deleteJob F jobId c)) = db c
       \<and> (\<exists>k. trace (snd (deleteJob F jobId c)) =
               trace c
               @ take k [Begin, SelectJobById jobId, DeleteDepsByJob jobId,
                         DeleteTasksByJob jobId, DeleteJobById jobId, Commit]
               @ [Rollback])
       \<and> (\<not> F Rollback \<longrightarrow> tx (snd (deleteJob F jobId c)) = None)"
proof -
  let ?R = "deleteJob F jobId c"
  let ?L = "[Begin, SelectJobById jobId, DeleteDepsByJob jobId,
             DeleteTasksByJob jobId, DeleteJobById jobId, Commit]"
  from first_row [OF ex] obtain rest where
    rows: "map (\<lambda>j. IdRow (j_id j)) (filter (\<lambda>j. j_id j = jobId) (jobs (db c))) = IdRow jobId # rest"
    ..
  note steps = deleteJob_def cq_steps rows
  have t4: "take 4 ?L = [Begin, SelectJobById jobId, DeleteDepsByJob jobId, DeleteTasksByJob jobId]"
    by simp
  have t5: "take 5 ?L = [Begin, SelectJobById jobId, DeleteDepsByJob jobId,
      DeleteTasksByJob jobId, DeleteJobById jobId]"
    by simp
  have t6: "take 6 ?L = ?L"
    by simp
  have fin: ?thesis
    if "\<exists>e. fst ?R = Inl e" and "db (snd ?R) = db c"
      and "\<not> F Rollback \<longrightarrow> tx (snd ?R) = None"
      and "trace (snd ?R) = trace c @ take k ?L @ [Rollback]" for k
    using that by blast
  show ?thesis
  proof (cases "F (DeleteDepsByJob jobId)")
    case True
    with nf have "\<exists>e. fst ?R = Inl e" "db (snd ?R) = db c"
      "\<not> F Rollback \<longrightarrow> tx (snd ?R) = None"
      "trace (snd ?R) = trace c @ take 4 ?L @ [Rollback]"
      unfolding t4 by (simp_all add: steps)
    then show ?thesis by (rule fin)
  next
    case nd: False
    show ?thesis
    proof (cases "task_deps (db c)")
      case None
      with nf nd have "\<exists>e. fst ?R = Inl e" "db (snd ?R) = db c"
        "\<not> F Rollback \<longrightarrow> tx (snd ?R) = None"
        "trace (snd ?R) = trace c @ take 4 ?L @ [Rollback]"
        unfolding t4 by (simp_all add: steps)
      then show ?thesis by (rule fin)
    next
      case (Some ds)
      show ?thesis
      proof (cases "F (DeleteTasksByJob jobId)")
        case True
        with nf nd Some have "\<exists>e. fst ?R = Inl e" "db (snd ?R) = db c"
          "\<not> F Rollback \<longrightarrow> tx (snd ?R) = None"
          "trace (snd ?R) = trace c @ take 4 ?L @ [Rollback]"
          unfolding t4 by (simp_all add: steps)
        then show ?thesis by (rule fin)
      next
        case nt: False
        show ?thesis
        proof (cases "F (DeleteJobById jobId)")
          case True
          with nf nd Some nt have "\<exists>e. fst ?R = Inl e" "db (snd ?R) = db c"
            "\<not> F Rollback \<longrightarrow> tx (snd ?R) = None"
            "trace (snd ?R) = trace c @ take 5 ?L @ [Rollback]"
            unfolding t5 by (simp_all add: steps)
          then show ?thesis by (rule fin)
        next
          case nj: False
          with f nd Some nt have fc: "F Commit"
            by simp
          with nf nd Some nt nj have "\<exists>e. fst ?R = Inl e" "db (snd ?R) = db c"
            "\<not> F Rollback \<longrightarrow> tx (snd ?R) = None"
            "trace (snd ?R) = trace c @ take 6 ?L @ [Rollback]"
            unfolding t6 by (simp_all add: steps)
          then show ?thesis by (rule fin)
        qed
      qed
    qed
  qed
qed

text \<open>A failure before the deletes: nothing is committed either.\<close>

lemma deleteJob_early_failure:
  assumes f: "F Connect \<or> F Begin \<or> F (SelectJobById jobId)"
  shows "(\<exists>e. fst (deleteJob F jobId c) = Inl e) \<and> db (snd (deleteJob F jobId c)) = db c"
proof -
  from f consider (a) "F Connect" | (b) "\<not> F Connect" "F Begin"
    | (c) "\<not> F Connect" "\<not> F Begin" "F (SelectJobById jobId)"
    by blast
  then show ?thesis
  proof cases
    case a
    then show ?thesis by (simp add: deleteJob_def)
  next
    case b
    then show ?thesis by (simp add: deleteJob_def cq_steps)
  next
    case c
    then show ?thesis by (simp add: deleteJob_def cq_steps)
  qed
qed

text \<open>
  C1. For a job that exists, deleteJob works on one client between BEGIN and COMMIT or
  ROLLBACK. When every statement succeeds, it sends the deletes of the dependency edges,
  of the tasks and of the job row in this order, commits, returns the identifier, and
  the committed store loses exactly the job, its tasks and its dependency edges. When a
  statement after the existence check fails (the delete of the dependency edges, also
  because their table is missing, the delete of the tasks, the delete of the job, or
  COMMIT), deleteJob throws, the statements sent are an initial part of the same
  sequence followed by ROLLBACK, and the committed store is the one before the call: no
  partial deletion is ever committed. A failure before the deletes (taking the client,
  BEGIN, the existence check) leaves the committed store unchanged as well.
\<close>

theorem deleteJob_atomic:
  assumes "jobId \<in> j_id ` set (jobs (db c))"
  shows "(\<not> F Connect \<and> \<not> F Begin \<and> \<not> F (SelectJobById jobId)
          \<and> \<not> F (DeleteDepsByJob jobId) \<and> \<not> F (DeleteTasksByJob jobId)
          \<and> \<not> F (DeleteJobById jobId) \<and> \<not> F Commit \<and> task_deps (db c) = Some ds \<longrightarrow>
          deleteJob F jobId c =
            (Inr jobId,
             \<lparr> db = (db c)\<lparr> jobs := filter (\<lambda>j. j_id j \<noteq> jobId) (jobs (db c)),
                             tasks := filter (\<lambda>t. t_job_id t \<noteq> jobId) (tasks (db c)),
                             task_deps := Some (filter (\<lambda>e. d_job_id e \<noteq> jobId) ds) \<rparr>,
               tx = None, aborted = False,
               trace = trace c @ [Begin, SelectJobById jobId, DeleteDepsByJob jobId,
                                  DeleteTasksByJob jobId, DeleteJobById jobId, Commit] \<rparr>))
       \<and> (\<not> F Connect \<and> \<not> F Begin \<and> \<not> F (SelectJobById jobId)
          \<and> (F (DeleteDepsByJob jobId) \<or> task_deps (db c) = None
              \<or> F (DeleteTasksByJob jobId) \<or> F (DeleteJobById jobId) \<or> F Commit) \<longrightarrow>
          (\<exists>e. fst (deleteJob F jobId c) = Inl e)
          \<and> db (snd (deleteJob F jobId c)) = db c
          \<and> (\<exists>k. trace (snd (deleteJob F jobId c)) =
                  trace c
                  @ take k [Begin, SelectJobById jobId, DeleteDepsByJob jobId,
                            DeleteTasksByJob jobId, DeleteJobById jobId, Commit]
                  @ [Rollback])
          \<and> (\<not> F Rollback \<longrightarrow> tx (snd (deleteJob F jobId c)) = None))
       \<and> (F Connect \<or> F Begin \<or> F (SelectJobById jobId) \<longrightarrow>
          (\<exists>e. fst (deleteJob F jobId c) = Inl e) \<and> db (snd (deleteJob F jobId c)) = db c)"
    (is "(?p1 \<longrightarrow> ?q1) \<and> (?p2 \<longrightarrow> ?q2) \<and> (?p3 \<longrightarrow> ?q3)")
proof -
  have a: "?p1 \<longrightarrow> ?q1"
  proof
    assume "?p1"
    with assms show "?q1"
      by (intro deleteJob_ok) simp_all
  qed
  have b: "?p2 \<longrightarrow> ?q2"
  proof
    assume "?p2"
    with assms show "?q2"
      by (intro deleteJob_rolled_back) simp_all
  qed
  have c: "?p3 \<longrightarrow> ?q3"
  proof
    assume "?p3"
    then show "?q3"
      by (rule deleteJob_early_failure)
  qed
  show ?thesis
    by (rule conjI [OF a conjI [OF b c]])
qed

theorem deleteJob_atomic_witness:
  "''1'' \<in> j_id ` set (jobs (db example_conn))
   \<and> fst (deleteJob no_faults ''1'' example_conn) = Inr ''1''
   \<and> db (snd (deleteJob no_faults ''1'' example_conn)) =
       \<lparr> jobs = [example_job ''2'' ''failed'', example_job ''3'' ''done''],
         tasks = [\<lparr> t_job_id = ''2'', t_task_id = ''a'', t_state = ''failed'' \<rparr>],
         task_deps = Some [] \<rparr>
   \<and> db (snd (deleteJob deps_delete_fails ''1'' example_conn)) = db example_conn
   \<and> (\<exists>e. fst (deleteJob deps_delete_fails ''1'' example_conn) = Inl e)
   \<and> db (snd (deleteJob tasks_delete_fails ''1'' example_conn)) = db example_conn
   \<and> (\<exists>e. fst (deleteJob tasks_delete_fails ''1'' example_conn) = Inl e)"
proof -
  have ex: "''1'' \<in> j_id ` set (jobs (db example_conn))"
    by (simp add: example_conn_def example_store_def example_job_def)
  have table: "task_deps (db example_conn) =
      Some [\<lparr> d_job_id = ''1'', d_pre_task_id = ''a'', d_post_task_id = ''b'' \<rparr>]"
    by (simp add: example_conn_def example_store_def)
  have ok: "fst (deleteJob no_faults ''1'' example_conn) = Inr ''1''
      \<and> db (snd (deleteJob no_faults ''1'' example_conn)) =
          \<lparr> jobs = [example_job ''2'' ''failed'', example_job ''3'' ''done''],
            tasks = [\<lparr> t_job_id = ''2'', t_task_id = ''a'', t_state = ''failed'' \<rparr>],
            task_deps = Some [] \<rparr>"
    using deleteJob_atomic [OF ex, of no_faults] table
    by (simp add: no_faults_def example_conn_def example_store_def example_job_def)
  have deps: "db (snd (deleteJob deps_delete_fails ''1'' example_conn)) = db example_conn
      \<and> (\<exists>e. fst (deleteJob deps_delete_fails ''1'' example_conn) = Inl e)"
    using deleteJob_atomic [OF ex, of deps_delete_fails]
    by (simp add: deps_delete_fails_def)
  have tasks: "db (snd (deleteJob tasks_delete_fails ''1'' example_conn)) = db example_conn
      \<and> (\<exists>e. fst (deleteJob tasks_delete_fails ''1'' example_conn) = Inl e)"
    using deleteJob_atomic [OF ex, of tasks_delete_fails]
    by (simp add: tasks_delete_fails_def)
  show ?thesis
    using ex ok deps tasks by blast
qed

text \<open>
  C6. For a job identifier that matches no job row, deleteJob throws and the committed
  store after the call is the store before it; the only statements sent are BEGIN, the
  existence check and ROLLBACK, none of which writes. When the store answers these
  statements, the error thrown is the one saying that the job does not exist.
\<close>

theorem deleteJob_not_found:
  assumes "jobId \<notin> j_id ` set (jobs (db c))"
  shows "db (snd (deleteJob F jobId c)) = db c
       \<and> (\<exists>e. fst (deleteJob F jobId c) = Inl e)
       \<and> set (trace (snd (deleteJob F jobId c))) \<subseteq>
           set (trace c) \<union> {Begin, SelectJobById jobId, Rollback}
       \<and> (\<not> F Connect \<and> \<not> F Begin \<and> \<not> F (SelectJobById jobId) \<and> \<not> F Rollback \<longrightarrow>
           fst (deleteJob F jobId c) = Inl (job_not_found jobId))"
  using deleteJob_missing_aux [OF assms, of F] by simp

theorem deleteJob_not_found_witness:
  "''7'' \<notin> j_id ` set (jobs (db example_conn))
   \<and> db (snd (deleteJob no_faults ''7'' example_conn)) = db example_conn
   \<and> fst (deleteJob no_faults ''7'' example_conn) =
       Inl (NotFound ''Job with ID 7 does not exist'')"
proof -
  have ex: "''7'' \<notin> j_id ` set (jobs (db example_conn))"
    by (simp add: example_conn_def example_store_def example_job_def)
  show ?thesis
    using ex deleteJob_not_found [OF ex, of no_faults]
    by (simp add: no_faults_def job_not_found_def)
qed

text \<open>
  C3, as stated, fails in a deployment without the table of dependency edges:
  getJobDependencies has no \<open>try\<close> around its query, and the error of the store reaches
  the caller.
\<close>

theorem getJobDependencies_missing_table:
  "fst (getJobDependencies no_faults ''1'' conn_without_deps) =
     Inl (StoreError ''relation task_deps does not exist'')"
  by code_simp

text \<open>
  C3, amended. When the query itself does not fail, getJobDependencies returns the
  edges of the job with their count where the table exists (the empty list with count 0
  when the job has no edge), and throws the error of the store where the table is
  missing; it never changes the store.
\<close>

theorem getJobDependencies_result:
  assumes "\<not> F (SelectDepsByJob jobId)" and "tx c = None"
  shows "fst (getJobDependencies F jobId c) =
          (case task_deps (db c) of
             None \<Rightarrow> Inl missing_deps
           | Some ds \<Rightarrow>
               Inr \<lparr> dependencies =
                       map (\<lambda>e. DepRow (d_pre_task_id e) (d_post_task_id e))
                         (filter (\<lambda>e. d_job_id e = jobId) ds),
                     dep_count = length (filter (\<lambda>e. d_job_id e = jobId) ds) \<rparr>)
       \<and> db (snd (getJobDependencies F jobId c)) = db c"
  using assms
  by (simp add: getJobDependencies_def client_query_def view_def put_def fail_in_tx_def
      Let_def split: option.splits)

theorem getJobDependencies_result_witness:
  "\<not> no_faults (SelectDepsByJob ''1'') \<and> tx example_conn = None
   \<and> fst (getJobDependencies no_faults ''1'' example_conn) =
       Inr \<lparr> dependencies = [DepRow ''a'' ''b''], dep_count = 1 \<rparr>
   \<and> fst (getJobDependencies no_faults ''2'' example_conn) =
       Inr \<lparr> dependencies = [], dep_count = 0 \<rparr>"
proof -
  have h: "\<not> no_faults (SelectDepsByJob ''1'')" "\<not> no_faults (SelectDepsByJob ''2'')"
    "tx example_conn = None"
    by (simp_all add: no_faults_def example_conn_def)
  show ?thesis
    using h getJobDependencies_result [of no_faults "''1''" example_conn]
      getJobDependencies_result [of no_faults "''2''" example_conn]
    by (simp add: example_conn_def example_store_def)
qed

subsection \<open>clearCompletedJobs\<close>

lemma row_id_IdRow: "map (row_id \<circ> IdRow) xs = xs"
  by (induction xs) auto

lemma ids_task_deps [simp]: "job_ids_in_state st (d\<lparr> task_deps := x \<rparr>) = job_ids_in_state st d"
  by (simp add: job_ids_in_state_def)

lemma ids_tasks [simp]: "job_ids_in_state st (d\<lparr> tasks := x \<rparr>) = job_ids_in_state st d"
  by (simp add: job_ids_in_state_def)

lemma ids_after_delete:
  "job_ids_in_state st (d\<lparr> jobs := filter (\<lambda>j. j_state j \<noteq> st) (jobs d) \<rparr>) = []"
  by (simp add: job_ids_in_state_def filter_empty_conv)

lemma clear_none:
  assumes nf: "\<not> F Connect" "\<not> F Begin" "\<not> F (CountJobsByState st)" "\<not> F Commit"
    and none: "job_ids_in_state st (db c) = []"
  shows "clearJobsInState st word F c =
     (Inr \<lparr> deletedJobsCount = 0, deletedJobIds = None,
            message = ''No '' @ word @ '' jobs found to delete'' \<rparr>,
      \<lparr> db = db c, tx = None, aborted = False,
        trace = trace c @ [Begin, CountJobsByState st, Commit] \<rparr>)"
  using nf none by (simp add: clearJobsInState_def cq_steps)

lemma clear_some:
  assumes nf: "\<not> F Connect" "\<not> F Begin" "\<not> F (CountJobsByState st)"
      "\<not> F (SelectJobIdsByState st)" "\<not> F (DeleteDepsByJobState st)"
      "\<not> F (DeleteTasksByJobState st)" "\<not> F (DeleteJobsByState st)" "\<not> F Commit"
    and table: "task_deps (db c) = Some ds"
    and some: "job_ids_in_state st (db c) \<noteq> []"
  shows "clearJobsInState st word F c =
     (Inr \<lparr> deletedJobsCount = length (job_ids_in_state st (db c)),
            deletedJobIds = Some (job_ids_in_state st (db c)),
            message = ''Successfully deleted ''
                      @ string_of_nat (length (job_ids_in_state st (db c)))
                      @ '' '' @ word @ '' job(s)'' \<rparr>,
      \<lparr> db = (db c)\<lparr> jobs := filter (\<lambda>j. j_state j \<noteq> st) (jobs (db c)),
                      tasks := filter (\<lambda>t. t_job_id t \<notin> set (job_ids_in_state st (db c)))
                                 (tasks (db c)),
                      task_deps :=
                        Some (filter (\<lambda>e. d_job_id e \<notin> set (job_ids_in_state st (db c)))
                                ds) \<rparr>,
        tx = None, aborted = False,
        trace = trace c @ [Begin, CountJobsByState st, SelectJobIdsByState st,
                           DeleteDepsByJobState st, DeleteTasksByJobState st,
                           DeleteJobsByState st, Commit] \<rparr>)"
  using nf table some
  by (simp add: clearJobsInState_def cq_steps row_id_IdRow)

text \<open>Without the table of dependency edges the caught error of their delete has put the
  transaction into the failed state: the delete of the tasks fails, and the operation
  rolls back and throws.\<close>

lemma clear_without_table:
  assumes nf: "\<not> F Connect" "\<not> F Begin" "\<not> F (CountJobsByState st)"
      "\<not> F (SelectJobIdsByState st)" "\<not> F (DeleteDepsByJobState st)"
      "\<not> F (DeleteTasksByJobState st)" "\<not> F Rollback"
    and table: "task_deps (db c) = None"
    and some: "job_ids_in_state st (db c) \<noteq> []"
  shows "clearJobsInState st word F c =
     (Inl transaction_aborted,
      \<lparr> db = db c, tx = None, aborted = False,
        trace = trace c @ [Begin, CountJobsByState st, SelectJobIdsByState st,
                           DeleteDepsByJobState st, DeleteTasksByJobState st, Rollback] \<rparr>)"
  using nf table some
  by (simp add: clearJobsInState_def cq_steps row_id_IdRow)

text \<open>
  Where the table of dependency edges exists and the store answers every statement,
  clearCompletedJobs behaves as C5 says: with no job in state done it commits and
  returns the count 0; with jobs in state done it returns their number and the list of
  their identifiers; afterwards the committed store holds exactly the jobs that were not
  done, and a second call returns the count 0.
\<close>

lemma clearCompletedJobs_with_table:
  assumes "\<not> F Connect" "\<not> F Begin" "\<not> F (CountJobsByState ''done'')"
    "\<not> F (SelectJobIdsByState ''done'')" "\<not> F (DeleteDepsByJobState ''done'')"
    "\<not> F (DeleteTasksByJobState ''done'')" "\<not> F (DeleteJobsByState ''done'')" "\<not> F Commit"
    and table: "task_deps (db c) = Some ds"
  shows "(job_ids_in_state ''done'' (db c) = [] \<longrightarrow>
           clearCompletedJobs F c =
             (Inr \<lparr> deletedJobsCount = 0, deletedJobIds = None,
                    message = ''No completed jobs found to delete'' \<rparr>,
              \<lparr> db = db c, tx = None, aborted = False,
                trace = trace c @ [Begin, CountJobsByState ''done'', Commit] \<rparr>))
       \<and> (job_ids_in_state ''done'' (db c) \<noteq> [] \<longrightarrow>
           fst (clearCompletedJobs F c) =
             Inr \<lparr> deletedJobsCount = length (job_ids_in_state ''done'' (db c)),
                   deletedJobIds = Some (job_ids_in_state ''done'' (db c)),
                   message = ''Successfully deleted ''
                             @ string_of_nat (length (job_ids_in_state ''done'' (db c)))
                             @ '' completed job(s)'' \<rparr>)
       \<and> jobs (db (snd (clearCompletedJobs F c))) =
           filter (\<lambda>j. j_state j \<noteq> ''done'') (jobs (db c))
       \<and> job_ids_in_state ''done'' (db (snd (clearCompletedJobs F c))) = []
       \<and> fst (clearCompletedJobs F (snd (clearCompletedJobs F c))) =
           Inr \<lparr> deletedJobsCount = 0, deletedJobIds = None,
                 message = ''No completed jobs found to delete'' \<rparr>"
proof -
  let ?ids = "job_ids_in_state ''done'' (db c)"
  let ?c' = "snd (clearCompletedJobs F c)"
  have zero: "?ids = [] \<Longrightarrow>
      clearCompletedJobs F c =
        (Inr \<lparr> deletedJobsCount = 0, deletedJobIds = None,
               message = ''No completed jobs found to delete'' \<rparr>,
         \<lparr> db = db c, tx = None, aborted = False,
           trace = trace c @ [Begin, CountJobsByState ''done'', Commit] \<rparr>)"
    using assms clear_none [of F "''done''" c "''completed''"]
    by (simp add: clearCompletedJobs_def)
  have some: "?ids \<noteq> [] \<Longrightarrow>
      fst (clearCompletedJobs F c) =
        Inr \<lparr> deletedJobsCount = length ?ids, deletedJobIds = Some ?ids,
              message = ''Successfully deleted '' @ string_of_nat (length ?ids)
                        @ '' completed job(s)'' \<rparr>
      \<and> jobs (db ?c') = filter (\<lambda>j. j_state j \<noteq> ''done'') (jobs (db c))"
    using assms clear_some [of F "''done''" c ds "''completed''"]
    by (simp add: clearCompletedJobs_def)
  have none_left: "jobs (db c) = filter (\<lambda>j. j_state j \<noteq> ''done'') (jobs (db c))"
    if "?ids = []"
  proof -
    from that have "\<forall>j \<in> set (jobs (db c)). j_state j \<noteq> ''done''"
      by (simp add: job_ids_in_state_def filter_empty_conv)
    then show ?thesis by (simp add: filter_id_conv)
  qed
  have jobs': "jobs (db ?c') = filter (\<lambda>j. j_state j \<noteq> ''done'') (jobs (db c))"
  proof (cases "?ids = []")
    case True
    then show ?thesis using zero none_left by simp
  next
    case False
    then show ?thesis using some by simp
  qed
  have gone: "job_ids_in_state ''done'' (db ?c') = []"
    by (simp add: job_ids_in_state_def jobs' filter_empty_conv)
  have again: "fst (clearCompletedJobs F ?c') =
      Inr \<lparr> deletedJobsCount = 0, deletedJobIds = None,
            message = ''No completed jobs found to delete'' \<rparr>"
    using assms gone clear_none [of F "''done''" ?c' "''completed''"]
    by (simp add: clearCompletedJobs_def)
  show ?thesis
    using zero some jobs' gone again by blast
qed

lemma clearCompletedJobs_without_table:
  assumes "\<not> F Connect" "\<not> F Begin" "\<not> F (CountJobsByState ''done'')"
    "\<not> F (SelectJobIdsByState ''done'')" "\<not> F (DeleteDepsByJobState ''done'')"
    "\<not> F (DeleteTasksByJobState ''done'')" "\<not> F Rollback"
    and "task_deps (db c) = None"
    and "job_ids_in_state ''done'' (db c) \<noteq> []"
  shows "fst (clearCompletedJobs F c) = Inl transaction_aborted
       \<and> db (snd (clearCompletedJobs F c)) = db c"
  using assms clear_without_table [of F "''done''" c "''completed''"]
  by (simp add: clearCompletedJobs_def)

text \<open>
  C5. In a deployment without the table of dependency edges, which the operation means
  to tolerate (it catches the error of the delete of the edges and logs that it skips
  it), the example store holds the two done jobs 1 and 3; clearCompletedJobs does not
  return the count 2: the caught error has aborted the transaction, the delete of the
  tasks fails, the operation rolls back and throws, and both done jobs remain.
\<close>

theorem clearCompletedJobs_missing_table_throws:
  "job_ids_in_state ''done'' (db conn_without_deps) = [''1'', ''3'']
   \<and> fst (clearCompletedJobs no_faults conn_without_deps) =
       Inl (StoreError
             ''current transaction is aborted, commands ignored until end of transaction block'')
   \<and> db (snd (clearCompletedJobs no_faults conn_without_deps)) = db conn_without_deps
   \<and> trace (snd (clearCompletedJobs no_faults conn_without_deps)) =
       [Begin, CountJobsByState ''done'', SelectJobIdsByState ''done'',
        DeleteDepsByJobState ''done'', DeleteTasksByJobState ''done'', Rollback]"
  by code_simp

section \<open>Properties of the Validator\<close>

text \<open>
  C4. The limit 0, given as a number or as the string of the query, is below 1, and the
  test of the repository expects the error that the limit must be at least 1. The code
  reads \<open>parseInt(limit) || 50\<close>, in which 0 is falsy: validation succeeds with the
  default limit 50.
\<close>

theorem validatePagination_zero_limit:
  "validatePagination (Num 0) Undefined = Inr \<lparr> p_limit = Finite 50, p_offset = Finite 0 \<rparr>
   \<and> validatePagination (Str ''0'') Undefined =
       Inr \<lparr> p_limit = Finite 50, p_offset = Finite 0 \<rparr>"
  by code_simp

lemma validatePagination_cases:
  "validatePagination l off =
     (if greater_than (or_default (parseInt l) 50) 100
        then Inl (InvalidPagination ''Limit cannot exceed 100'')
      else if less_than (or_default (parseInt l) 50) 1
        then Inl (InvalidPagination ''Limit must be at least 1'')
      else if less_than (or_default (parseInt off) 0) 0
        then Inl (InvalidPagination ''Offset must be non-negative'')
      else Inr \<lparr> p_limit = or_default (parseInt l) 50,
                 p_offset = or_default (parseInt off) 0 \<rparr>)"
  by (simp add: validatePagination_def Let_def)

lemma validatePagination_examples:
  "validatePagination Undefined Undefined = Inr \<lparr> p_limit = Finite 50, p_offset = Finite 0 \<rparr>"
  "validatePagination (Num 101) Undefined = Inl (InvalidPagination ''Limit cannot exceed 100'')"
  "validatePagination (Num (- 1)) Undefined = Inl (InvalidPagination ''Limit must be at least 1'')"
  "validatePagination (Num 10) (Num (- 1)) = Inl (InvalidPagination ''Offset must be non-negative'')"
  by code_simp+

text \<open>A no-break space before the digits is skipped, and an integer above \<open>2^53\<close> is
  rounded to the nearest double.\<close>

lemma parseInt_examples:
  "parseInt (Str [CHR 0xC2, CHR 0xA0, CHR ''5'']) = Finite 5"
  "parseInt (Str ''9007199254740993'') = Finite 9007199254740992"
  "parseInt (Str ''  42px'') = Finite 42"
  "parseInt (Str ''0x1f'') = Finite 31"
  "parseInt (Str ''abc'') = NaN"
  by code_simp+

section \<open>Properties of the AutoClearService\<close>

lemma performAutoClear_both:
  assumes "clearCompleted cfg" and "clearFailed cfg"
  shows "fst (performAutoClear cfg F c) =
           Inr [branch_entry ''completed'' (fst (clearCompletedJobs F c)),
                branch_entry ''failed''
                  (fst (clearFailedJobs F (snd (clearCompletedJobs F c))))]"
    and "snd (snd (performAutoClear cfg F c)) =
           snd (clearFailedJobs F (snd (clearCompletedJobs F c)))"
    and "last (fst (snd (performAutoClear cfg F c))) =
           (if branch_count (fst (clearCompletedJobs F c))
               + branch_count (fst (clearFailedJobs F (snd (clearCompletedJobs F c)))) > 0
            then LogTotal
                   (branch_count (fst (clearCompletedJobs F c))
                    + branch_count (fst (clearFailedJobs F (snd (clearCompletedJobs F c)))))
            else LogNothingToClear)"
proof -
  obtain r1 c1 where a: "clearCompletedJobs F c = (r1, c1)"
    by (cases "clearCompletedJobs F c")
  obtain r2 c2 where b: "clearFailedJobs F c1 = (r2, c2)"
    by (cases "clearFailedJobs F c1")
  show "fst (performAutoClear cfg F c) =
           Inr [branch_entry ''completed'' (fst (clearCompletedJobs F c)),
                branch_entry ''failed''
                  (fst (clearFailedJobs F (snd (clearCompletedJobs F c))))]"
    using assms
    by (cases r1; cases r2) (simp_all add: performAutoClear_def a b branch_entry_def)
  show "snd (snd (performAutoClear cfg F c)) =
           snd (clearFailedJobs F (snd (clearCompletedJobs F c)))"
    using assms
    by (cases r1; cases r2) (simp_all add: performAutoClear_def a b)
  show "last (fst (snd (performAutoClear cfg F c))) =
           (if branch_count (fst (clearCompletedJobs F c))
               + branch_count (fst (clearFailedJobs F (snd (clearCompletedJobs F c)))) > 0
            then LogTotal
                   (branch_count (fst (clearCompletedJobs F c))
                    + branch_count (fst (clearFailedJobs F (snd (clearCompletedJobs F c)))))
            else LogNothingToClear)"
    using assms
    by (cases r1; cases r2) (simp_all add: performAutoClear_def a b branch_count_def)
qed

lemma hourly_both: "clearCompleted hourly_config" "clearFailed hourly_config"
  by (simp_all add: hourly_config_def)

lemma example_completed:
  "fst (clearCompletedJobs no_faults example_conn) =
     Inr \<lparr> deletedJobsCount = 2, deletedJobIds = Some [''1'', ''3''],
           message = ''Successfully deleted 2 completed job(s)'' \<rparr>"
  by code_simp

lemma example_failed:
  "fst (clearFailedJobs no_faults (snd (clearCompletedJobs no_faults example_conn))) =
     Inr \<lparr> deletedJobsCount = 1, deletedJobIds = Some [''2''],
           message = ''Successfully deleted 1 failed job(s)'' \<rparr>"
  by code_simp

text \<open>
  C7, as stated, fails on the content of the result: on the example store with both
  branches enabled the returned object has the two entries \<open>completed\<close> and
  \<open>failed\<close> and nothing else; the total of 3 deleted jobs is only printed.
\<close>

theorem sweep_result_has_no_total:
  "fst (performAutoClear hourly_config no_faults example_conn) =
     Inr [(''completed'',
           Outcome \<lparr> deletedJobsCount = 2, deletedJobIds = Some [''1'', ''3''],
                     message = ''Successfully deleted 2 completed job(s)'' \<rparr>),
          (''failed'',
           Outcome \<lparr> deletedJobsCount = 1, deletedJobIds = Some [''2''],
                     message = ''Successfully deleted 1 failed job(s)'' \<rparr>)]
   \<and> last (fst (snd (performAutoClear hourly_config no_faults example_conn))) = LogTotal 3"
  using performAutoClear_both [OF hourly_both, of no_faults example_conn]
  by (simp add: example_completed example_failed branch_entry_def branch_count_def)

text \<open>
  C7, amended. With both branches enabled, the sweep runs the clear of the completed
  jobs and then, on the connection that branch leaves, the clear of the failed jobs,
  whatever the first branch did. It never throws. The object it returns has one entry
  per branch, in this order: the result of the branch (the count and, when jobs were
  deleted, their identifiers), or the message of the error the branch threw, under the
  key of the branch with the suffix \<open>Error\<close>. The total of the two counts is printed
  as the last console line and is not part of the returned object.
\<close>

theorem sweep_isolates_branches:
  assumes "clearCompleted cfg" and "clearFailed cfg"
  shows "fst (performAutoClear cfg F c) =
           Inr [branch_entry ''completed'' (fst (clearCompletedJobs F c)),
                branch_entry ''failed''
                  (fst (clearFailedJobs F (snd (clearCompletedJobs F c))))]
       \<and> snd (snd (performAutoClear cfg F c)) =
           snd (clearFailedJobs F (snd (clearCompletedJobs F c)))
       \<and> last (fst (snd (performAutoClear cfg F c))) =
           (if branch_count (fst (clearCompletedJobs F c))
               + branch_count (fst (clearFailedJobs F (snd (clearCompletedJobs F c)))) > 0
            then LogTotal
                   (branch_count (fst (clearCompletedJobs F c))
                    + branch_count (fst (clearFailedJobs F (snd (clearCompletedJobs F c)))))
            else LogNothingToClear)"
  using performAutoClear_both [OF assms, of F c] by simp

theorem sweep_isolates_branches_witness:
  "clearCompleted hourly_config \<and> clearFailed hourly_config
   \<and> fst (performAutoClear hourly_config done_tasks_delete_fails example_conn) =
       Inr [(''completedError'', ErrorMessage ''statement failed''),
            (''failed'',
             Outcome \<lparr> deletedJobsCount = 1, deletedJobIds = Some [''2''],
                       message = ''Successfully deleted 1 failed job(s)'' \<rparr>)]"
proof -
  have a: "fst (clearCompletedJobs done_tasks_delete_fails example_conn) =
      Inl (StoreError ''statement failed'')"
    by code_simp
  have b: "fst (clearFailedJobs done_tasks_delete_fails
                 (snd (clearCompletedJobs done_tasks_delete_fails example_conn))) =
      Inr \<lparr> deletedJobsCount = 1, deletedJobIds = Some [''2''],
            message = ''Successfully deleted 1 failed job(s)'' \<rparr>"
    by code_simp
  show ?thesis
    using hourly_both
      sweep_isolates_branches [OF hourly_both, of done_tasks_delete_fails example_conn]
    by (simp add: a b branch_entry_def)
qed

lemma start_fresh:
  assumes "enabled cfg"
  shows "start cfg (new_service, fresh_runtime t0) =
     (\<lparr> intervalId = Some 1, isRunning = True \<rparr>,
      \<lparr> now = t0, next_id = 3,
        pending = [IntervalTimer 1 t0 (clamp_delay (interval cfg)), TimeoutTimer 2 t0 5000] \<rparr>)"
  using assms
  by (simp add: start_def new_service_def fresh_runtime_def setInterval_def setTimeout_def
      clamp_delay_def)

lemma stop_after_start:
  assumes "enabled cfg"
  shows "stop (pass_time t (start cfg (new_service, fresh_runtime t0))) =
     (\<lparr> intervalId = None, isRunning = False \<rparr>,
      \<lparr> now = max t0 t, next_id = 3,
        pending = (if t \<le> t0 + 5000 then [TimeoutTimer 2 t0 5000] else []) \<rparr>)"
  using assms
  by (simp add: start_fresh pass_time_def elapse_def stop_def clearInterval_def max_def)

text \<open>
  C2, as stated, fails twice. With the default interval of one hour, start followed at
  once by stop leaves the one-shot timer armed, and the initial sweep fires 5000 ms after
  the start although the service is stopped. With an interval of one second, the
  recurring timer fires at 1000 ms, before the initial sweep at 5000 ms.
\<close>

theorem stop_leaves_initial_sweep:
  "pending (snd (stop (start hourly_config (new_service, fresh_runtime 0)))) =
     [TimeoutTimer 2 0 5000]
   \<and> sweep_fires (snd (stop (start hourly_config (new_service, fresh_runtime 0)))) 5000
   \<and> pending (snd (start fast_config (new_service, fresh_runtime 0))) =
       [IntervalTimer 1 0 1000, TimeoutTimer 2 0 5000]
   \<and> fires_at 1000 (IntervalTimer 1 0 1000)
   \<and> sweep_fires (snd (start fast_config (new_service, fresh_runtime 0))) 1000"
proof -
  have h: "enabled hourly_config" "enabled fast_config"
    by (simp_all add: hourly_config_def fast_config_def)
  have i: "interval fast_config = 1000"
    by (simp add: fast_config_def)
  have s: "stop (start hourly_config (new_service, fresh_runtime 0)) =
      (\<lparr> intervalId = None, isRunning = False \<rparr>,
       \<lparr> now = 0, next_id = 3, pending = [TimeoutTimer 2 0 5000] \<rparr>)"
    by (simp add: start_fresh [OF h(1)] stop_def clearInterval_def)
  show ?thesis
    by (simp add: s start_fresh [OF h(2)] i sweep_fires_def clamp_delay_def)
qed

text \<open>
  C2, amended. With retention enabled, start on a stopped service arms the recurring
  timer at the configured interval and a one-shot timer at 5000 ms and marks the service
  running. Whatever time passes before stop is called, stop leaves the service stopped
  and cancels the recurring timer: no recurring sweep fires any more, and the only sweep
  that can still fire is the initial one, 5000 ms after the start, if it has not fired
  yet. When the interval is longer than 5000 ms (and within the range of the runtime's
  timers), the initial sweep at 5000 ms is the only sweep before the first recurring one,
  which fires one interval after the start.
\<close>

theorem stop_cancels_recurring_timer:
  assumes "enabled cfg"
  shows "isRunning (fst (start cfg (new_service, fresh_runtime t0)))
       \<and> pending (snd (start cfg (new_service, fresh_runtime t0))) =
           [IntervalTimer 1 t0 (clamp_delay (interval cfg)), TimeoutTimer 2 t0 5000]
       \<and> fst (stop (pass_time t (start cfg (new_service, fresh_runtime t0)))) = new_service
       \<and> pending (snd (stop (pass_time t (start cfg (new_service, fresh_runtime t0))))) =
           (if t \<le> t0 + 5000 then [TimeoutTimer 2 t0 5000] else [])
       \<and> (sweep_fires (snd (stop (pass_time t (start cfg (new_service, fresh_runtime t0))))) u
            \<longrightarrow> u = t0 + 5000)
       \<and> (5000 < interval cfg \<and> interval cfg \<le> 2147483647 \<longrightarrow>
            sweep_fires (snd (start cfg (new_service, fresh_runtime t0))) (t0 + 5000)
            \<and> sweep_fires (snd (start cfg (new_service, fresh_runtime t0))) (t0 + interval cfg)
            \<and> (u < t0 + interval cfg
                 \<and> sweep_fires (snd (start cfg (new_service, fresh_runtime t0))) u
                 \<longrightarrow> u = t0 + 5000))"
proof -
  let ?started = "start cfg (new_service, fresh_runtime t0)"
  let ?stopped = "stop (pass_time t ?started)"
  note st = start_fresh [OF assms, of t0]
  note sp = stop_after_start [OF assms, of t t0]
  have p1: "isRunning (fst ?started)"
    unfolding st by simp
  have p2: "pending (snd ?started) =
      [IntervalTimer 1 t0 (clamp_delay (interval cfg)), TimeoutTimer 2 t0 5000]"
    unfolding st by simp
  have p3: "fst ?stopped = new_service"
    unfolding sp by (simp add: new_service_def)
  have p4: "pending (snd ?stopped) = (if t \<le> t0 + 5000 then [TimeoutTimer 2 t0 5000] else [])"
    unfolding sp by simp
  have p5: "sweep_fires (snd ?stopped) u \<longrightarrow> u = t0 + 5000"
    unfolding sp by (simp add: sweep_fires_def)
  have p6: "sweep_fires (snd ?started) (t0 + 5000)
      \<and> sweep_fires (snd ?started) (t0 + interval cfg)
      \<and> (u < t0 + interval cfg \<and> sweep_fires (snd ?started) u \<longrightarrow> u = t0 + 5000)"
    if big: "5000 < interval cfg \<and> interval cfg \<le> 2147483647"
  proof -
    from big have c: "clamp_delay (interval cfg) = interval cfg"
      by (simp add: clamp_delay_def)
    have early: "\<not> interval cfg dvd (u - t0)" if "u < t0 + interval cfg" and "t0 < u"
    proof -
      from that have "0 < u - t0" "u - t0 < interval cfg"
        by arith+
      then show ?thesis
        by (rule nat_dvd_not_less)
    qed
    show ?thesis
      unfolding st using big early by (auto simp add: sweep_fires_def c)
  qed
  show ?thesis
    using p1 p2 p3 p4 p5 p6 by blast
qed

theorem stop_cancels_recurring_timer_witness:
  "enabled hourly_config
   \<and> pending (snd (stop (pass_time 6000 (start hourly_config (new_service, fresh_runtime 0))))) = []
   \<and> sweep_fires (snd (start hourly_config (new_service, fresh_runtime 0))) 5000
   \<and> sweep_fires (snd (start hourly_config (new_service, fresh_runtime 0))) 3600000"
proof -
  have h: "enabled hourly_config" "interval hourly_config = 3600000"
    by (simp_all add: hourly_config_def)
  show ?thesis
    using h stop_cancels_recurring_timer [OF h(1), of 0 6000 5000]
    by simp
qed

end
